theory Spec2Isabelle
  imports Main "HOL-Library.Sublist"
begin

section \<open>Data model\<close>

text \<open>
  The chat interface works on the \<open>Part\<close> objects of the hosted API's client library.
  The code never looks at a discriminant: it inspects which fields of the object are
  present and truthy. A Part is therefore a record of optional fields, \<open>None\<close> standing
  for an absent (\<open>undefined\<close>) field.
\<close>

text \<open>
  Modelled from the spec: the declaration of \<open>Part\<close> and of its nested objects belongs to
  the client library and is not part of the sources. The nested objects get the fields of
  the data model (\<open>language\<close> and \<open>code\<close>, \<open>outcome\<close> and \<open>output\<close>, \<open>mimeType\<close> and
  \<open>data\<close>), all strings. The fields \<open>text\<close> and \<open>output\<close> are written \<open>text_val\<close> and
  \<open>output_str\<close> here. The \<open>thought\<close> field is a boolean in the library, but both
  renderers also accept a string there (\<open>typeof part.thought === 'string'\<close>), so both
  are kept. The payloads of \<open>functionCall\<close> and \<open>functionResponse\<close> are never inspected
  and are kept as strings.
\<close>

datatype thought_val = TBool bool | TStr string

record executable_code =
  language :: string
  code :: string

record code_execution_result =
  outcome :: string
  output_str :: string

record inline_data =
  mimeType :: string
  data :: string

record part =
  text_val :: "string option"
  thought :: "thought_val option"
  executableCode :: "executable_code option"
  codeExecutionResult :: "code_execution_result option"
  inlineData :: "inline_data option"
  functionCall :: "string option"
  functionResponse :: "string option"

text \<open>The object literal \<open>{}\<close>.\<close>

definition empty_part :: part where
  "empty_part = \<lparr>text_val = None, thought = None, executableCode = None,
     codeExecutionResult = None, inlineData = None, functionCall = None,
     functionResponse = None\<rparr>"

subsection \<open>JavaScript truthiness of the fields\<close>

text \<open>A string field is truthy when it is present and not the empty string.\<close>

definition truthy_text :: "string option \<Rightarrow> bool" where
  "truthy_text t = (case t of None \<Rightarrow> False | Some s \<Rightarrow> s \<noteq> [])"

text \<open>\<open>!!p.thought\<close>: \<open>undefined\<close>, \<open>false\<close> and \<open>""\<close> are falsy.\<close>

definition truthy_thought :: "thought_val option \<Rightarrow> bool" where
  "truthy_thought t =
     (case t of None \<Rightarrow> False | Some (TBool b) \<Rightarrow> b | Some (TStr s) \<Rightarrow> s \<noteq> [])"

text \<open>\<open>x || ""\<close> on an optional string.\<close>

definition or_empty :: "string option \<Rightarrow> string" where
  "or_empty t = (case t of None \<Rightarrow> [] | Some s \<Rightarrow> s)"

section \<open>The streaming reducer\<close>

text \<open>
  \<open>isMergeableText\<close>, the helper declared inside the loop of \<open>handleSendMessage\<close>.
\<close>

definition isMergeableText :: "part \<Rightarrow> part \<Rightarrow> bool" where
  "isMergeableText p1 p2 =
     (let p1Thought = truthy_thought (thought p1);
          p2Thought = truthy_thought (thought p2)
      in text_val p1 \<noteq> None \<and> text_val p2 \<noteq> None \<and>
         executableCode p1 = None \<and> executableCode p2 = None \<and>
         codeExecutionResult p1 = None \<and> codeExecutionResult p2 = None \<and>
         inlineData p1 = None \<and> inlineData p2 = None \<and>
         p1Thought = p2Thought)"

text \<open>
  One iteration of \<open>for (const newPart of newParts)\<close>, on the value of the array
  \<open>currentParts\<close>. \<open>lastPart\<close> is \<open>undefined\<close> (here \<open>None\<close>) when the array is empty;
  the assignment to index \<open>lastPartIndex\<close> is only reached when it is not.
\<close>

definition reduce_part :: "part list \<Rightarrow> part \<Rightarrow> part list" where
  "reduce_part currentParts newPart =
     (let lastPartIndex = length currentParts - 1;
          lastPart = (if currentParts = [] then None else Some (currentParts ! lastPartIndex))
      in
      if truthy_text (text_val newPart) then
        (case lastPart of
           Some lp \<Rightarrow>
             if isMergeableText lp newPart
             then currentParts[lastPartIndex :=
                    lp\<lparr>text_val := Some (or_empty (text_val lp) @ or_empty (text_val newPart))\<rparr>]
             else currentParts @
                    [empty_part\<lparr>text_val := text_val newPart, thought := thought newPart\<rparr>]
         | None \<Rightarrow>
             currentParts @
               [empty_part\<lparr>text_val := text_val newPart, thought := thought newPart\<rparr>])
      else
        (case executableCode newPart of
           Some nc \<Rightarrow>
             (case lastPart of
                Some lp \<Rightarrow>
                  (case executableCode lp of
                     Some lc \<Rightarrow>
                       if language lc = language nc
                       then currentParts[lastPartIndex :=
                              lp\<lparr>executableCode := Some (lc\<lparr>code := code lc @ code nc\<rparr>)\<rparr>]
                       else currentParts @ [empty_part\<lparr>executableCode := Some nc\<rparr>]
                   | None \<Rightarrow> currentParts @ [empty_part\<lparr>executableCode := Some nc\<rparr>])
              | None \<Rightarrow> currentParts @ [empty_part\<lparr>executableCode := Some nc\<rparr>])
         | None \<Rightarrow>
             (case codeExecutionResult newPart of
                Some r \<Rightarrow> currentParts @ [empty_part\<lparr>codeExecutionResult := Some r\<rparr>]
              | None \<Rightarrow>
                  (case inlineData newPart of
                     Some d \<Rightarrow> currentParts @ [empty_part\<lparr>inlineData := Some d\<rparr>]
                   | None \<Rightarrow>
                       if truthy_thought (thought newPart)
                       then currentParts @
                              [empty_part\<lparr>thought := thought newPart,
                                 text_val := Some (or_empty (text_val newPart))\<rparr>]
                       else currentParts))))"

text \<open>The whole loop over one batch \<open>newParts\<close>.\<close>

definition reduce_parts :: "part list \<Rightarrow> part list \<Rightarrow> part list" where
  "reduce_parts currentParts newParts = foldl reduce_part currentParts newParts"

section \<open>Messages and the session state\<close>

text \<open>
  Modelled from the spec: \<open>ChatMessage\<close> is declared in a types module that is not part
  of the sources; it has the fields \<open>id\<close>, \<open>role\<close>, \<open>parts\<close> and \<open>timestamp\<close> that
  \<open>handleSendMessage\<close> fills in. An identifier is the decimal rendering of a clock
  reading; the rendering is injective, so the number itself is kept.
\<close>

datatype role = User | Model

record chat_message =
  msg_id :: int
  role :: role
  parts :: "part list"
  timestamp :: int

text \<open>The two state variables of \<open>ChatInterface\<close> that \<open>handleSendMessage\<close> writes.\<close>

record chat_state =
  messages :: "chat_message list"
  isLoading :: bool

text \<open>
  The \<open>image\<close> argument, by what \<open>if (image)\<close> and the regular expression
  \<open>/^data:(.+);base64,(.+)$/\<close> make of it: absent or empty, a string the expression does
  not match, or a match with its two groups.
\<close>

datatype image_arg = NoImage | Unmatched | DataUrl string string

definition userParts :: "string \<Rightarrow> image_arg \<Rightarrow> part list" where
  "userParts msg_text img =
     (let ps1 = (if msg_text \<noteq> [] then [empty_part\<lparr>text_val := Some msg_text\<rparr>] else []);
          ps2 = (case img of
                   DataUrl m d \<Rightarrow>
                     ps1 @ [empty_part\<lparr>inlineData := Some \<lparr>mimeType = m, data = d\<rparr>\<rparr>]
                 | _ \<Rightarrow> ps1)
      in if length ps2 = 0 then ps2 @ [empty_part\<lparr>text_val := Some '' ''\<rparr>] else ps2)"

subsection \<open>History sent upstream\<close>

record content =
  content_role :: role
  content_parts :: "part list"

text \<open>The callback of \<open>msg.parts.map\<close>: a clean object that starts as \<open>{}\<close>.\<close>

definition cleanPart :: "part \<Rightarrow> part" where
  "cleanPart p =
     (let c0 = empty_part;
          c1 = (if text_val p \<noteq> None \<and> text_val p \<noteq> Some [] then c0\<lparr>text_val := text_val p\<rparr> else c0);
          c2 = (if inlineData p \<noteq> None then c1\<lparr>inlineData := inlineData p\<rparr> else c1);
          c3 = (if functionCall p \<noteq> None then c2\<lparr>functionCall := functionCall p\<rparr> else c2);
          c4 = (if functionResponse p \<noteq> None
                then c3\<lparr>functionResponse := functionResponse p\<rparr> else c3);
          c5 = (if executableCode p \<noteq> None then c4\<lparr>executableCode := executableCode p\<rparr> else c4);
          c6 = (if codeExecutionResult p \<noteq> None
                then c5\<lparr>codeExecutionResult := codeExecutionResult p\<rparr> else c5)
      in c6)"

text \<open>
  \<open>Object.keys(p).length > 0\<close>: the clean object got at least one field, that is, it is
  not \<open>{}\<close> (every field \<open>cleanPart\<close> assigns is a present value).
\<close>

definition buildHistory :: "chat_message list \<Rightarrow> content list" where
  "buildHistory msgs =
     map (\<lambda>msg.
            let cleanParts = filter (\<lambda>p. p \<noteq> empty_part) (map cleanPart (parts msg))
            in \<lparr>content_role = role msg,
                content_parts = (if length cleanParts > 0 then cleanParts
                                 else [empty_part\<lparr>text_val := Some '' ''\<rparr>])\<rparr>)
         msgs"

subsection \<open>One call of \<open>handleSendMessage\<close>\<close>

text \<open>
  The state updater run for each chunk. Reading \<open>lastMsg.id\<close> on an empty transcript
  throws a \<open>TypeError\<close>: the result \<open>None\<close>.
\<close>

definition streamUpdate :: "int \<Rightarrow> part list \<Rightarrow> chat_message list \<Rightarrow> chat_message list option" where
  "streamUpdate modelMessageId newParts prev =
     (if prev = [] then None
      else let lastMsg = last prev in
        if msg_id lastMsg \<noteq> modelMessageId then Some prev
        else let currentParts = reduce_parts (parts lastMsg) newParts
             in Some (butlast prev @ [lastMsg\<lparr>parts := currentParts\<rparr>]))"

fun consume :: "int \<Rightarrow> part list list \<Rightarrow> chat_message list \<Rightarrow> chat_message list option" where
  "consume modelMessageId [] msgs = Some msgs"
| "consume modelMessageId (newParts # chunks) msgs =
     (case streamUpdate modelMessageId newParts msgs of
        None \<Rightarrow> None
      | Some msgs' \<Rightarrow> consume modelMessageId chunks msgs')"

text \<open>
  What the upstream call did: the call itself was rejected, or it gave a stream that
  delivered the listed chunks (each the Part list \<open>chunk.candidates?.[0]?.content?.parts || []\<close>)
  and then ended normally (\<open>False\<close>) or threw (\<open>True\<close>).
\<close>

datatype stream_outcome = SendRejected | Streamed "part list list" bool

definition apology :: string where
  "apology = ''Sorry, I encountered an error. Please try again.''"

text \<open>
  The message built in the \<open>catch\<close> block, from the two clock readings made there.
\<close>

definition errorMessage :: "int \<Rightarrow> int \<Rightarrow> chat_message" where
  "errorMessage now1 now2 =
     \<lparr>msg_id = now1 + 2, role = Model, parts = [empty_part\<lparr>text_val := Some apology\<rparr>],
      timestamp = now2\<rparr>"

text \<open>
  \<open>handleSendMessage\<close>, with state updates applied in the order they are queued and no
  other event in between. \<open>clock i\<close> is the \<open>i\<close>-th reading of \<open>Date.now()\<close> the call
  makes. The result is \<open>None\<close> when a state updater throws.
\<close>

definition handleSendMessage ::
  "(nat \<Rightarrow> int) \<Rightarrow> string \<Rightarrow> image_arg \<Rightarrow> stream_outcome \<Rightarrow> chat_state \<Rightarrow> chat_state option" where
  "handleSendMessage clock msg_text img upstream s =
     (let s1 = s\<lparr>isLoading := True\<rparr>;
          userMessage = \<lparr>msg_id = clock 0, role = User, parts = userParts msg_text img,
                         timestamp = clock 1\<rparr>;
          s2 = s1\<lparr>messages := messages s1 @ [userMessage]\<rparr>
      in case upstream of
           SendRejected \<Rightarrow>
             Some (s2\<lparr>messages := messages s2 @ [errorMessage (clock 2) (clock 3)],
                       isLoading := False\<rparr>)
         | Streamed chunks failed \<Rightarrow>
             (let modelMessageId = clock 2 + 1;
                  modelMessage = \<lparr>msg_id = modelMessageId, role = Model, parts = [],
                                  timestamp = clock 3\<rparr>;
                  s3 = s2\<lparr>messages := messages s2 @ [modelMessage]\<rparr>
              in case consume modelMessageId chunks (messages s3) of
                   None \<Rightarrow> None
                 | Some msgs \<Rightarrow>
                     if failed
                     then Some (s3\<lparr>messages := msgs @ [errorMessage (clock 4) (clock 5)],
                                    isLoading := False\<rparr>)
                     else Some (s3\<lparr>messages := msgs, isLoading := False\<rparr>)))"

text \<open>\<open>handleBack\<close>, the reset.\<close>

definition handleBack :: "chat_state \<Rightarrow> chat_state" where
  "handleBack s = s\<lparr>messages := [], isLoading := False\<rparr>"

section \<open>The two renderers\<close>

text \<open>
  What a renderer shows for one Part, without the styling classes and fixed attributes: a
  collapsible section with its title, its icon, its body and the badge of its status, or
  formatted markdown, or an image. The markdown formatter and the browser are external; a
  view records the strings handed to them. The live view hands over texts, which the
  framework escapes; the export writes markup, so the strings of an export view are the
  characters put into the document. \<open>None\<close> is \<open>null\<close> in the live view and the empty
  string in the export.
\<close>

datatype icon = Brain | Code2 | Terminal

datatype body = MarkdownBody string | CodeBody string | PreWrapBody string

datatype view =
  Collapsible string icon body "string option"
| Markdown string
| Image string string

text \<open>
  The badge of \<open>CollapsiblePart\<close>: shown when the \<open>status\<close> property is truthy.
\<close>

definition CollapsiblePart :: "string \<Rightarrow> icon \<Rightarrow> body \<Rightarrow> string option \<Rightarrow> view" where
  "CollapsiblePart title ic children status =
     Collapsible title ic children
       (if truthy_text status
        then Some (if status = Some ''OUTCOME_OK'' then ''Success'' else ''Error'')
        else None)"

text \<open>
  The capture groups of all matches of \<open>/\*\*([^*]+)\*\*/g\<close>, left to right. At a start
  position the expression needs two stars, a longest non-empty run without a star, and
  two stars again; the search resumes after a match, and one character further after a
  failed attempt.
\<close>

function boldMatches :: "string \<Rightarrow> string list" where
  "boldMatches (c # c' # rest) =
     (if c = CHR ''*'' \<and> c' = CHR ''*'' then
        (let grp = takeWhile (\<lambda>x. x \<noteq> CHR ''*'') rest;
             after = dropWhile (\<lambda>x. x \<noteq> CHR ''*'') rest
         in if grp \<noteq> [] \<and> take 2 after = ''**''
            then grp # boldMatches (drop 2 after)
            else boldMatches (c' # rest))
      else boldMatches (c' # rest))"
| "boldMatches [c] = []"
| "boldMatches [] = []"
  by pat_completeness auto
termination
proof (relation "measure length")
  fix c c' :: char and rest grp after :: string
  assume "after = dropWhile (\<lambda>x. x \<noteq> CHR ''*'') rest"
  moreover have "length (dropWhile (\<lambda>x. x \<noteq> CHR ''*'') rest) \<le> length rest"
    by (rule length_dropWhile_le)
  ultimately show "(drop 2 after, c # c' # rest) \<in> measure length"
    by simp
qed simp_all

text \<open>
  The content of a thought:
  \<open>typeof part.thought === 'string' ? part.thought : (part.text || "")\<close>.
\<close>

definition thoughtContent :: "part \<Rightarrow> string" where
  "thoughtContent p = (case thought p of Some (TStr s) \<Rightarrow> s | _ \<Rightarrow> or_empty (text_val p))"

text \<open>\<open>renderPart\<close> of \<open>ChatMessageItem\<close>, the live view.\<close>

definition renderPart :: "bool \<Rightarrow> chat_message \<Rightarrow> part \<Rightarrow> nat \<Rightarrow> view option" where
  "renderPart isStreaming message p index =
     (if thought p = Some (TBool True) \<or>
         (case thought p of Some (TStr s) \<Rightarrow> length s > 0 | _ \<Rightarrow> False)
      then
        (let title =
           (if isStreaming \<and> int index = int (length (parts message)) - 1 then
              (let bolds = boldMatches (thoughtContent p)
               in if length bolds > 0 then ''Thinking - '' @ last bolds
                  else ''Thought Process'')
            else ''Thought Process'')
         in Some (CollapsiblePart title Brain (MarkdownBody (thoughtContent p)) None))
      else case executableCode p of
        Some ec \<Rightarrow>
          Some (CollapsiblePart (''Executable Code ('' @ language ec @ '')'') Code2
                  (CodeBody (code ec)) None)
      | None \<Rightarrow>
          (case codeExecutionResult p of
             Some r \<Rightarrow>
               Some (CollapsiblePart ''Execution Result'' Terminal
                       (PreWrapBody (output_str r)) (Some (outcome r)))
           | None \<Rightarrow>
               if truthy_text (text_val p) then Some (Markdown (or_empty (text_val p)))
               else (case inlineData p of
                       Some d \<Rightarrow> Some (Image (mimeType d) (data d))
                     | None \<Rightarrow> None)))"

text \<open>
  What one message shows: \<open>null\<close> entries show nothing, the others in the order of the
  Parts.
\<close>

record message_view =
  shown_role :: role
  shown_parts :: "view list"
  shown_time :: int

definition ChatMessageItem :: "chat_message \<Rightarrow> bool \<Rightarrow> message_view" where
  "ChatMessageItem message isStreaming =
     \<lparr>shown_role = role message,
      shown_parts =
        List.map_filter (\<lambda>(i, p). renderPart isStreaming message p i)
          (enumerate 0 (parts message)),
      shown_time = timestamp message\<rparr>"

text \<open>
  The message list of \<open>ChatInterface\<close>. (On an empty transcript the component shows
  its welcome screen instead, and the export is not offered.)
\<close>

definition liveView :: "chat_state \<Rightarrow> message_view list" where
  "liveView s =
     map (\<lambda>(index, msg).
            ChatMessageItem msg
              (isLoading s \<and> int index = int (length (messages s)) - 1))
         (enumerate 0 (messages s))"

subsection \<open>The export\<close>

text \<open>
  \<open>s.replace(/c/g, r)\<close> for a single character \<open>c\<close>, and \<open>escapeHtml\<close> with its five
  replacements in the order of the source.
\<close>

definition replaceAll :: "char \<Rightarrow> string \<Rightarrow> string \<Rightarrow> string" where
  "replaceAll c r s = concat (map (\<lambda>x. if x = c then r else [x]) s)"

definition escapeHtml :: "string \<Rightarrow> string" where
  "escapeHtml unsafe =
     (if unsafe = [] then []
      else replaceAll (CHR 0x27) ''&#039;''
             (replaceAll (CHR 0x22) ''&quot;''
                (replaceAll CHR ''>'' ''&gt;''
                   (replaceAll CHR ''<'' ''&lt;''
                      (replaceAll CHR ''&'' ''&amp;'' unsafe)))))"

text \<open>
  \<open>createCollapsible\<close> of \<open>generateHtmlFromMessages\<close>, with its badge. The title goes
  into the markup as it is given, and so does the content, which the caller has built.
\<close>

definition createCollapsible :: "string \<Rightarrow> icon \<Rightarrow> body \<Rightarrow> string option \<Rightarrow> view" where
  "createCollapsible title ic content_html status =
     (let isOk = (status = Some ''OUTCOME_OK'');
          badgeHtml = (if truthy_text status
                       then Some (if isOk then ''Success'' else ''Error'') else None)
      in Collapsible title ic content_html badgeHtml)"

text \<open>
  The callback of \<open>msg.parts.map\<close> in \<open>generateHtmlFromMessages\<close>. The thought text, the
  code, the output and the plain text pass through \<open>escapeHtml\<close>; the language in the
  title of a code section and the MIME type and data of an image are interpolated raw.
\<close>

definition exportPart :: "part \<Rightarrow> view option" where
  "exportPart p =
     (if truthy_thought (thought p) then
        (let thoughtText = (case thought p of Some (TStr s) \<Rightarrow> Some s | _ \<Rightarrow> text_val p)
         in if \<not> truthy_text thoughtText then None
            else Some (createCollapsible ''Thought Process'' Brain
                         (MarkdownBody (escapeHtml (or_empty thoughtText))) None))
      else case executableCode p of
        Some ec \<Rightarrow>
          Some (createCollapsible (''Executable Code ('' @ language ec @ '')'') Code2
                  (CodeBody (escapeHtml (code ec))) None)
      | None \<Rightarrow>
          (case codeExecutionResult p of
             Some r \<Rightarrow>
               Some (createCollapsible ''Execution Result'' Terminal
                       (PreWrapBody (escapeHtml (output_str r))) (Some (outcome r)))
           | None \<Rightarrow>
               (case inlineData p of
                  Some d \<Rightarrow> Some (Image (mimeType d) (data d))
                | None \<Rightarrow>
                    if truthy_text (text_val p)
                    then Some (Markdown (escapeHtml (or_empty (text_val p))))
                    else None)))"

text \<open>
  \<open>messagesHtml\<close>, the part of the exported document made from the transcript; the
  rest of the document is a fixed frame with the export date.
\<close>

definition generateHtmlFromMessages :: "chat_message list \<Rightarrow> message_view list" where
  "generateHtmlFromMessages msgs =
     map (\<lambda>msg. \<lparr>shown_role = role msg,
                  shown_parts = List.map_filter exportPart (parts msg),
                  shown_time = timestamp msg\<rparr>)
         msgs"

section \<open>The reducer on a store of objects\<close>

text \<open>
  Whether the reducer mutates an object it was given cannot be seen on values, so the
  state updater is modelled a second time on a store: the Part objects and the arrays
  live in cells, a reference is the index of a cell, and an object or array literal
  takes the next free cell. The nested objects of a Part are part of its value (the
  code never assigns into one). The incoming \<open>newParts\<close> are only read and stay values.
\<close>

record store =
  part_cells :: "part list"
  array_cells :: "nat list list"

definition part_at :: "store \<Rightarrow> nat \<Rightarrow> part option" where
  "part_at st r = (if r < length (part_cells st) then Some (part_cells st ! r) else None)"

definition array_at :: "store \<Rightarrow> nat \<Rightarrow> nat list option" where
  "array_at st a = (if a < length (array_cells st) then Some (array_cells st ! a) else None)"

text \<open>An object literal and an array literal: a fresh cell, and its reference.\<close>

definition new_part :: "part \<Rightarrow> store \<Rightarrow> nat \<times> store" where
  "new_part p st = (length (part_cells st), st\<lparr>part_cells := part_cells st @ [p]\<rparr>)"

definition new_array :: "nat list \<Rightarrow> store \<Rightarrow> nat \<times> store" where
  "new_array refs st = (length (array_cells st), st\<lparr>array_cells := array_cells st @ [refs]\<rparr>)"

text \<open>
  \<open>a.push(r)\<close> and \<open>a[i] = r\<close> write into the cell of the array \<open>a\<close>. The reducer only
  assigns at the last index of a non-empty array, so the assignment never extends it.
\<close>

definition array_push :: "nat \<Rightarrow> nat \<Rightarrow> store \<Rightarrow> store" where
  "array_push a r st = st\<lparr>array_cells := (array_cells st)[a := array_cells st ! a @ [r]]\<rparr>"

definition array_set :: "nat \<Rightarrow> nat \<Rightarrow> nat \<Rightarrow> store \<Rightarrow> store" where
  "array_set a i r st = st\<lparr>array_cells := (array_cells st)[a := (array_cells st ! a)[i := r]]\<rparr>"

text \<open>\<open>currentParts.push({...})\<close> and \<open>currentParts[lastPartIndex] = {...}\<close>.\<close>

definition push_new :: "nat \<Rightarrow> part \<Rightarrow> store \<Rightarrow> store" where
  "push_new cp p st = (let (r, st') = new_part p st in array_push cp r st')"

definition set_new :: "nat \<Rightarrow> nat \<Rightarrow> part \<Rightarrow> store \<Rightarrow> store" where
  "set_new cp i p st = (let (r, st') = new_part p st in array_set cp i r st')"

text \<open>
  One iteration of the loop, \<open>cp\<close> being the reference of \<open>currentParts\<close>. The result is
  \<open>None\<close> only for a dangling reference, which no JavaScript value is.
\<close>

definition reduce_part_store :: "nat \<Rightarrow> part \<Rightarrow> store \<Rightarrow> store option" where
  "reduce_part_store cp newPart st =
     (case array_at st cp of
        None \<Rightarrow> None
      | Some refs \<Rightarrow>
          (let lastPartIndex = length refs - 1 in
           case (if refs = [] then Some None
                 else map_option Some (part_at st (refs ! lastPartIndex))) of
             None \<Rightarrow> None
           | Some lastPart \<Rightarrow>
               Some
                (if truthy_text (text_val newPart) then
                   (case lastPart of
                      Some lp \<Rightarrow>
                        if isMergeableText lp newPart
                        then set_new cp lastPartIndex
                               (lp\<lparr>text_val :=
                                      Some (or_empty (text_val lp) @ or_empty (text_val newPart))\<rparr>) st
                        else push_new cp
                               (empty_part\<lparr>text_val := text_val newPart,
                                  thought := thought newPart\<rparr>) st
                    | None \<Rightarrow>
                        push_new cp
                          (empty_part\<lparr>text_val := text_val newPart,
                             thought := thought newPart\<rparr>) st)
                 else
                   (case executableCode newPart of
                      Some nc \<Rightarrow>
                        (case lastPart of
                           Some lp \<Rightarrow>
                             (case executableCode lp of
                                Some lc \<Rightarrow>
                                  if language lc = language nc
                                  then set_new cp lastPartIndex
                                         (lp\<lparr>executableCode :=
                                                Some (lc\<lparr>code := code lc @ code nc\<rparr>)\<rparr>) st
                                  else push_new cp (empty_part\<lparr>executableCode := Some nc\<rparr>) st
                              | None \<Rightarrow> push_new cp (empty_part\<lparr>executableCode := Some nc\<rparr>) st)
                         | None \<Rightarrow> push_new cp (empty_part\<lparr>executableCode := Some nc\<rparr>) st)
                    | None \<Rightarrow>
                        (case codeExecutionResult newPart of
                           Some r \<Rightarrow> push_new cp (empty_part\<lparr>codeExecutionResult := Some r\<rparr>) st
                         | None \<Rightarrow>
                             (case inlineData newPart of
                                Some d \<Rightarrow> push_new cp (empty_part\<lparr>inlineData := Some d\<rparr>) st
                              | None \<Rightarrow>
                                  if truthy_thought (thought newPart)
                                  then push_new cp
                                         (empty_part\<lparr>thought := thought newPart,
                                            text_val := Some (or_empty (text_val newPart))\<rparr>) st
                                  else st))))))"

fun reduce_parts_store :: "nat \<Rightarrow> part list \<Rightarrow> store \<Rightarrow> store option" where
  "reduce_parts_store cp [] st = Some st"
| "reduce_parts_store cp (newPart # newParts) st =
     (case reduce_part_store cp newPart st of
        None \<Rightarrow> None
      | Some st' \<Rightarrow> reduce_parts_store cp newParts st')"

text \<open>
  \<open>const currentParts = [...lastMsg.parts]\<close> followed by the loop: \<open>src\<close> is the
  reference of \<open>lastMsg.parts\<close>, the result the reference of \<open>currentParts\<close> and the store
  after the loop.
\<close>

definition updateParts :: "nat \<Rightarrow> part list \<Rightarrow> store \<Rightarrow> (nat \<times> store) option" where
  "updateParts src newParts st =
     (case array_at st src of
        None \<Rightarrow> None
      | Some refs \<Rightarrow>
          (let (cp, st1) = new_array refs st
           in case reduce_parts_store cp newParts st1 of
                None \<Rightarrow> None
              | Some st' \<Rightarrow> Some (cp, st')))"

text \<open>The Parts an array holds, and an array all of whose references point to Parts.\<close>

definition parts_of :: "store \<Rightarrow> nat \<Rightarrow> part list" where
  "parts_of st a = map (\<lambda>r. part_cells st ! r) (array_cells st ! a)"

definition wf_array :: "store \<Rightarrow> nat \<Rightarrow> bool" where
  "wf_array st a =
     (a < length (array_cells st) \<and>
      list_all (\<lambda>r. r < length (part_cells st)) (array_cells st ! a))"

section \<open>Notions used in the statements\<close>

text \<open>
  A text element: it has a \<open>text\<close> field (possibly empty) and carries neither code, nor a
  result, nor binary data. Its thought flag is the truth value of its \<open>thought\<close> field,
  an absent field counting as false.
\<close>

definition text_element :: "part \<Rightarrow> bool" where
  "text_element p =
     (text_val p \<noteq> None \<and> executableCode p = None \<and> codeExecutionResult p = None \<and>
      inlineData p = None)"

definition thought_flag :: "part \<Rightarrow> bool" where
  "thought_flag p = truthy_thought (thought p)"

text \<open>The language and the code of an element that carries executable code.\<close>

definition code_language :: "part \<Rightarrow> string option" where
  "code_language p = map_option language (executableCode p)"

definition code_text :: "part \<Rightarrow> string" where
  "code_text p = (case executableCode p of None \<Rightarrow> [] | Some c \<Rightarrow> code c)"

text \<open>
  A fragment of kind CodeExecutionResult or InlineData: no text, no code, and the result
  or (failing that) the binary data. \<open>appended_copy\<close> is the element the reducer builds
  from it.
\<close>

definition result_fragment :: "part \<Rightarrow> bool" where
  "result_fragment p =
     (\<not> truthy_text (text_val p) \<and> executableCode p = None \<and> codeExecutionResult p \<noteq> None)"

definition inline_fragment :: "part \<Rightarrow> bool" where
  "inline_fragment p =
     (\<not> truthy_text (text_val p) \<and> executableCode p = None \<and> codeExecutionResult p = None \<and>
      inlineData p \<noteq> None)"

definition appended_copy :: "part \<Rightarrow> part" where
  "appended_copy p =
     (if codeExecutionResult p \<noteq> None
      then empty_part\<lparr>codeExecutionResult := codeExecutionResult p\<rparr>
      else empty_part\<lparr>inlineData := inlineData p\<rparr>)"

text \<open>
  The kinds a renderer can show, the kinds a Part carries (a field that is present and
  truthy), and the kind of a view, read off its icon.
\<close>

datatype part_kind = ThoughtKind | CodeKind | ResultKind | TextKind | ImageKind

fun carries :: "part \<Rightarrow> part_kind \<Rightarrow> bool" where
  "carries p ThoughtKind = thought_flag p"
| "carries p CodeKind = (executableCode p \<noteq> None)"
| "carries p ResultKind = (codeExecutionResult p \<noteq> None)"
| "carries p TextKind = truthy_text (text_val p)"
| "carries p ImageKind = (inlineData p \<noteq> None)"

definition live_priority :: "part_kind list" where
  "live_priority = [ThoughtKind, CodeKind, ResultKind, TextKind, ImageKind]"

fun view_kind :: "view \<Rightarrow> part_kind" where
  "view_kind (Collapsible title Brain b badge) = ThoughtKind"
| "view_kind (Collapsible title Code2 b badge) = CodeKind"
| "view_kind (Collapsible title Terminal b badge) = ResultKind"
| "view_kind (Markdown t) = TextKind"
| "view_kind (Image m d) = ImageKind"

text \<open>
  The markup that shows a view of the live renderer: every text escaped, the fixed badge
  as it is. The export agrees with the live view when it writes this markup.
\<close>

fun markup_of_body :: "body \<Rightarrow> body" where
  "markup_of_body (MarkdownBody t) = MarkdownBody (escapeHtml t)"
| "markup_of_body (CodeBody t) = CodeBody (escapeHtml t)"
| "markup_of_body (PreWrapBody t) = PreWrapBody (escapeHtml t)"

fun markup_of_view :: "view \<Rightarrow> view" where
  "markup_of_view (Collapsible title ic b badge)
     = Collapsible (escapeHtml title) ic (markup_of_body b) badge"
| "markup_of_view (Markdown t) = Markdown (escapeHtml t)"
| "markup_of_view (Image m d) = Image (escapeHtml m) (escapeHtml d)"

definition markup_of_message :: "message_view \<Rightarrow> message_view" where
  "markup_of_message mv = mv\<lparr>shown_parts := map markup_of_view (shown_parts mv)\<rparr>"

text \<open>
  The Parts on which the two renderers differ: a thought without content, and a Part
  that carries text together with binary data and nothing of higher priority.
\<close>

definition empty_thought :: "part \<Rightarrow> bool" where
  "empty_thought p = (thought_flag p \<and> thoughtContent p = [])"

definition text_with_image :: "part \<Rightarrow> bool" where
  "text_with_image p =
     (\<not> thought_flag p \<and> executableCode p = None \<and> codeExecutionResult p = None \<and>
      truthy_text (text_val p) \<and> inlineData p \<noteq> None)"

text \<open>
  The strings the export interpolates raw need no escaping: the language of a Part shown
  as code, the MIME type and the data of a Part shown as an image.
\<close>

definition plain_labels :: "part \<Rightarrow> bool" where
  "plain_labels p =
     (if thought_flag p then True
      else case executableCode p of
        Some ec \<Rightarrow> escapeHtml (language ec) = language ec
      | None \<Rightarrow>
          (case codeExecutionResult p of
             Some r \<Rightarrow> True
           | None \<Rightarrow>
               (case inlineData p of
                  Some d \<Rightarrow> escapeHtml (mimeType d) = mimeType d \<and> escapeHtml (data d) = data d
                | None \<Rightarrow> True)))"

text \<open>
  The live view is showing a title of the form \<open>Thinking - ...\<close>: a response is
  streaming, and the last Part of the last message is a thought with a bold passage.
\<close>

definition streaming_title :: "chat_state \<Rightarrow> bool" where
  "streaming_title s =
     (isLoading s \<and> messages s \<noteq> [] \<and> parts (last (messages s)) \<noteq> [] \<and>
      thought_flag (last (parts (last (messages s)))) \<and>
      boldMatches (thoughtContent (last (parts (last (messages s))))) \<noteq> [])"

text \<open>
  The history in the words of the specification: a Part has content when one of the
  fields the upstream accepts is present and, for the text, not empty; stripping removes
  the thought flag and an empty text.
\<close>

definition has_content :: "part \<Rightarrow> bool" where
  "has_content p =
     (truthy_text (text_val p) \<or> inlineData p \<noteq> None \<or> functionCall p \<noteq> None \<or>
      functionResponse p \<noteq> None \<or> executableCode p \<noteq> None \<or> codeExecutionResult p \<noteq> None)"

definition stripped :: "part \<Rightarrow> part" where
  "stripped p =
     p\<lparr>thought := None,
       text_val := (if truthy_text (text_val p) then text_val p else None)\<rparr>"

definition space_part :: part where
  "space_part = empty_part\<lparr>text_val := Some '' ''\<rparr>"

text \<open>
  The user message and the model message of one call, by the clock readings the call
  makes; the model message is given with the Parts it holds at the moment looked at.
\<close>

definition user_message :: "(nat \<Rightarrow> int) \<Rightarrow> string \<Rightarrow> image_arg \<Rightarrow> chat_message" where
  "user_message clock msg_text img =
     \<lparr>msg_id = clock 0, role = User, parts = userParts msg_text img, timestamp = clock 1\<rparr>"

definition model_message :: "(nat \<Rightarrow> int) \<Rightarrow> part list \<Rightarrow> chat_message" where
  "model_message clock ps =
     \<lparr>msg_id = clock 2 + 1, role = Model, parts = ps, timestamp = clock 3\<rparr>"

section \<open>A call of the send handler, event by event\<close>

text \<open>
  While the request is pending and while the stream is open the component stays
  interactive: the Back button is shown whenever the transcript is not empty, and the
  loading flag does not disable it. A call is therefore also modelled as the sequence of
  events that reach the component between its start and its end, each applied to the
  state in turn.

  A state updater is run by the framework, not inside the \<open>try\<close> block of the handler.
  When it throws, the framework unmounts the component; afterwards there is nothing to
  show and state updates have no effect. This is the state \<open>None\<close>.
\<close>

datatype phase = AwaitingSend | StreamOpen | CallOver

datatype call_event =
  SendResolves
| SendRejects
| ChunkArrives "part list"
| StreamEnds
| StreamThrows
| BackPressed

text \<open>
  The start of \<open>handleSendMessage\<close>, up to the \<open>await\<close> of the upstream call.
\<close>

definition begin_call ::
  "(nat \<Rightarrow> int) \<Rightarrow> string \<Rightarrow> image_arg \<Rightarrow> chat_state \<Rightarrow> phase \<times> chat_state option" where
  "begin_call clock msg_text img s =
     (let s1 = s\<lparr>isLoading := True\<rparr>;
          userMessage = \<lparr>msg_id = clock 0, role = User, parts = userParts msg_text img,
                         timestamp = clock 1\<rparr>
      in (AwaitingSend, Some (s1\<lparr>messages := messages s1 @ [userMessage]\<rparr>)))"

text \<open>
  One event. The upstream call resolves (the placeholder is appended) or rejects (the
  \<open>catch\<close> and \<open>finally\<close> blocks run); a chunk arrives (its state updater runs); the
  stream ends (\<open>finally\<close>) or throws (\<open>catch\<close> and \<open>finally\<close>); the user presses Back,
  which is possible when the button is rendered. An event that cannot occur in a phase
  leaves everything as it is.
\<close>

fun call_step ::
  "(nat \<Rightarrow> int) \<Rightarrow> phase \<times> chat_state option \<Rightarrow> call_event \<Rightarrow> phase \<times> chat_state option" where
  "call_step clock (AwaitingSend, ui) SendResolves =
     (StreamOpen,
      map_option
        (\<lambda>s. s\<lparr>messages := messages s @
                  [\<lparr>msg_id = clock 2 + 1, role = Model, parts = [], timestamp = clock 3\<rparr>]\<rparr>)
        ui)"
| "call_step clock (AwaitingSend, ui) SendRejects =
     (CallOver,
      map_option
        (\<lambda>s. s\<lparr>messages := messages s @ [errorMessage (clock 2) (clock 3)],
                isLoading := False\<rparr>)
        ui)"
| "call_step clock (StreamOpen, ui) (ChunkArrives newParts) =
     (StreamOpen,
      case ui of
        None \<Rightarrow> None
      | Some s \<Rightarrow>
          (case streamUpdate (clock 2 + 1) newParts (messages s) of
             None \<Rightarrow> None
           | Some msgs \<Rightarrow> Some (s\<lparr>messages := msgs\<rparr>)))"
| "call_step clock (StreamOpen, ui) StreamEnds =
     (CallOver, map_option (\<lambda>s. s\<lparr>isLoading := False\<rparr>) ui)"
| "call_step clock (StreamOpen, ui) StreamThrows =
     (CallOver,
      map_option
        (\<lambda>s. s\<lparr>messages := messages s @ [errorMessage (clock 4) (clock 5)],
                isLoading := False\<rparr>)
        ui)"
| "call_step clock (ph, ui) BackPressed =
     (ph, map_option (\<lambda>s. if length (messages s) > 0 then handleBack s else s) ui)"
| "call_step clock (ph, ui) ev = (ph, ui)"

definition run_call ::
  "(nat \<Rightarrow> int) \<Rightarrow> string \<Rightarrow> image_arg \<Rightarrow> call_event list \<Rightarrow> chat_state
     \<Rightarrow> phase \<times> chat_state option" where
  "run_call clock msg_text img events s =
     foldl (call_step clock) (begin_call clock msg_text img s) events"

section \<open>The reducer, one fragment at a time\<close>

text \<open>
  The loop body only looks at the last element, so it is described by what it does on the
  empty array and on an array with a last element.
\<close>

lemma reduce_part_Nil:
  "reduce_part [] p =
     (if truthy_text (text_val p)
      then [empty_part\<lparr>text_val := text_val p, thought := thought p\<rparr>]
      else case executableCode p of
        Some nc \<Rightarrow> [empty_part\<lparr>executableCode := Some nc\<rparr>]
      | None \<Rightarrow> (case codeExecutionResult p of
          Some r \<Rightarrow> [empty_part\<lparr>codeExecutionResult := Some r\<rparr>]
        | None \<Rightarrow> (case inlineData p of
            Some d \<Rightarrow> [empty_part\<lparr>inlineData := Some d\<rparr>]
          | None \<Rightarrow> if truthy_thought (thought p)
              then [empty_part\<lparr>thought := thought p, text_val := Some (or_empty (text_val p))\<rparr>]
              else [])))"
  by (simp add: reduce_part_def split: option.splits)

lemma reduce_part_snoc:
  "reduce_part (xs @ [lp]) p =
     (if truthy_text (text_val p) then
        (if isMergeableText lp p
         then xs @ [lp\<lparr>text_val := Some (or_empty (text_val lp) @ or_empty (text_val p))\<rparr>]
         else xs @ [lp, empty_part\<lparr>text_val := text_val p, thought := thought p\<rparr>])
      else case executableCode p of
        Some nc \<Rightarrow>
          (case executableCode lp of
             Some lc \<Rightarrow>
               if language lc = language nc
               then xs @ [lp\<lparr>executableCode := Some (lc\<lparr>code := code lc @ code nc\<rparr>)\<rparr>]
               else xs @ [lp, empty_part\<lparr>executableCode := Some nc\<rparr>]
           | None \<Rightarrow> xs @ [lp, empty_part\<lparr>executableCode := Some nc\<rparr>])
      | None \<Rightarrow> (case codeExecutionResult p of
          Some r \<Rightarrow> xs @ [lp, empty_part\<lparr>codeExecutionResult := Some r\<rparr>]
        | None \<Rightarrow> (case inlineData p of
            Some d \<Rightarrow> xs @ [lp, empty_part\<lparr>inlineData := Some d\<rparr>]
          | None \<Rightarrow> if truthy_thought (thought p)
              then xs @ [lp, empty_part\<lparr>thought := thought p,
                               text_val := Some (or_empty (text_val p))\<rparr>]
              else xs @ [lp])))"
  by (simp add: reduce_part_def split: option.splits)

subsection \<open>Text fragments\<close>

text \<open>
  C1, as the code has it: for every current sequence and every incoming Text fragment
  whose text is not empty, the text is concatenated onto the last element exactly when
  that element is a text element (no code, no result, no binary data) whose thought flag
  equals the fragment's, an absent flag counting as false on both sides; otherwise a new
  Text element with the fragment's text and flag is appended at the end. The merged
  element keeps every other field of the last element.
\<close>

theorem text_fragment_merge_or_append:
  assumes "text_val frag = Some t" and "t \<noteq> []"
    and "executableCode frag = None" and "codeExecutionResult frag = None"
    and "inlineData frag = None"
  shows "reduce_part cur frag =
     (if cur \<noteq> [] \<and> text_element (last cur) \<and> thought_flag (last cur) = thought_flag frag
      then butlast cur @ [(last cur)\<lparr>text_val := Some (or_empty (text_val (last cur)) @ t)\<rparr>]
      else cur @ [empty_part\<lparr>text_val := Some t, thought := thought frag\<rparr>])"
proof (cases cur rule: rev_cases)
  case Nil
  with assms show ?thesis by (simp add: reduce_part_Nil truthy_text_def)
next
  case (snoc xs lp)
  with assms show ?thesis
    by (simp add: reduce_part_snoc truthy_text_def isMergeableText_def text_element_def
        thought_flag_def or_empty_def)
qed

text \<open>
  The two scenarios of the specification: \<open>Hello\<close> and \<open> world\<close> merge, a thought
  followed by an answer does not.
\<close>

theorem text_fragment_merge_or_append_witness:
  "reduce_part [empty_part\<lparr>text_val := Some ''Hello''\<rparr>] (empty_part\<lparr>text_val := Some '' world''\<rparr>)
     = [empty_part\<lparr>text_val := Some ''Hello world''\<rparr>] \<and>
   reduce_part [empty_part\<lparr>text_val := Some ''thinking'', thought := Some (TBool True)\<rparr>]
       (empty_part\<lparr>text_val := Some ''answer'', thought := Some (TBool False)\<rparr>)
     = [empty_part\<lparr>text_val := Some ''thinking'', thought := Some (TBool True)\<rparr>,
        empty_part\<lparr>text_val := Some ''answer'', thought := Some (TBool False)\<rparr>]"
  using text_fragment_merge_or_append
          [of "empty_part\<lparr>text_val := Some '' world''\<rparr>" "'' world''"
              "[empty_part\<lparr>text_val := Some ''Hello''\<rparr>]"]
        text_fragment_merge_or_append
          [of "empty_part\<lparr>text_val := Some ''answer'', thought := Some (TBool False)\<rparr>"
              "''answer''"
              "[empty_part\<lparr>text_val := Some ''thinking'', thought := Some (TBool True)\<rparr>]"]
  by (simp add: empty_part_def text_element_def thought_flag_def truthy_thought_def or_empty_def)

text \<open>
  C1 as stated fails for a thought fragment with empty text: the last element is a text
  element with the same thought flag, yet the fragment is not concatenated onto it; a
  second element is appended.
\<close>

theorem empty_thought_text_not_merged:
  "text_element (empty_part\<lparr>text_val := Some ''x'', thought := Some (TBool True)\<rparr>) \<and>
   thought_flag (empty_part\<lparr>text_val := Some ''x'', thought := Some (TBool True)\<rparr>)
     = thought_flag (empty_part\<lparr>text_val := Some [], thought := Some (TBool True)\<rparr>) \<and>
   reduce_part [empty_part\<lparr>text_val := Some ''x'', thought := Some (TBool True)\<rparr>]
       (empty_part\<lparr>text_val := Some [], thought := Some (TBool True)\<rparr>)
     = [empty_part\<lparr>text_val := Some ''x'', thought := Some (TBool True)\<rparr>,
        empty_part\<lparr>text_val := Some [], thought := Some (TBool True)\<rparr>] \<and>
   reduce_part [empty_part\<lparr>text_val := Some ''x'', thought := Some (TBool True)\<rparr>]
       (empty_part\<lparr>text_val := Some [], thought := Some (TBool True)\<rparr>)
     \<noteq> [empty_part\<lparr>text_val := Some (''x'' @ []), thought := Some (TBool True)\<rparr>]"
  by (simp add: reduce_part_def isMergeableText_def truthy_text_def truthy_thought_def
      or_empty_def empty_part_def text_element_def thought_flag_def)

text \<open>
  C2, as the code has it: an incoming Text fragment whose text is empty (or absent) never
  goes through the text merge rule. With a false or absent thought flag it leaves the
  sequence as it is; with a true thought flag it is appended as a new thought element
  with empty text, whatever the last element is.
\<close>

theorem empty_text_fragment:
  assumes "\<not> truthy_text (text_val frag)"
    and "executableCode frag = None" and "codeExecutionResult frag = None"
    and "inlineData frag = None"
  shows "reduce_part cur frag =
     (if thought_flag frag
      then cur @ [empty_part\<lparr>thought := thought frag, text_val := Some []\<rparr>]
      else cur)"
proof (cases cur rule: rev_cases)
  case Nil
  with assms show ?thesis
    by (auto simp add: reduce_part_Nil thought_flag_def or_empty_def truthy_text_def
        split: option.splits)
next
  case (snoc xs lp)
  with assms show ?thesis
    by (auto simp add: reduce_part_snoc thought_flag_def or_empty_def truthy_text_def
        split: option.splits)
qed

theorem empty_text_fragment_witness:
  "reduce_part [empty_part\<lparr>text_val := Some ''a''\<rparr>] (empty_part\<lparr>text_val := Some []\<rparr>)
     = [empty_part\<lparr>text_val := Some ''a''\<rparr>] \<and>
   reduce_part [empty_part\<lparr>text_val := Some ''a''\<rparr>] (empty_part\<lparr>thought := Some (TBool True)\<rparr>)
     = [empty_part\<lparr>text_val := Some ''a''\<rparr>,
        empty_part\<lparr>thought := Some (TBool True), text_val := Some []\<rparr>]"
  using empty_text_fragment
          [of "empty_part\<lparr>text_val := Some []\<rparr>" "[empty_part\<lparr>text_val := Some ''a''\<rparr>]"]
        empty_text_fragment
          [of "empty_part\<lparr>thought := Some (TBool True)\<rparr>"
              "[empty_part\<lparr>text_val := Some ''a''\<rparr>]"]
  by (simp add: empty_part_def thought_flag_def truthy_thought_def truthy_text_def)

text \<open>
  C2 as stated fails: an empty text fragment without a thought flag is dropped, on the
  empty sequence and after an element it could not merge with.
\<close>

theorem empty_text_fragment_dropped:
  "reduce_part [] (empty_part\<lparr>text_val := Some []\<rparr>) = [] \<and>
   reduce_part [empty_part\<lparr>executableCode := Some \<lparr>language = ''python'', code = ''x''\<rparr>\<rparr>]
       (empty_part\<lparr>text_val := Some [], thought := Some (TBool False)\<rparr>)
     = [empty_part\<lparr>executableCode := Some \<lparr>language = ''python'', code = ''x''\<rparr>\<rparr>]"
  by (simp add: reduce_part_def truthy_text_def truthy_thought_def empty_part_def)

subsection \<open>Code, result and binary fragments\<close>

text \<open>
  C5: for every current sequence, an incoming ExecutableCode fragment (no text, some
  code) is merged into the last element, its code concatenated after that element's code,
  exactly when the last element carries executable code in the same language; otherwise
  it is appended as a new element holding only the code. In particular two adjacent code
  fragments in different languages give two elements.
\<close>

theorem code_fragment_merge_or_append:
  assumes "\<not> truthy_text (text_val frag)" and "executableCode frag = Some nc"
  shows "reduce_part cur frag =
     (if cur \<noteq> [] \<and> code_language (last cur) = Some (language nc)
      then butlast cur @
             [(last cur)\<lparr>executableCode :=
                 Some \<lparr>language = language nc, code = code_text (last cur) @ code nc\<rparr>\<rparr>]
      else cur @ [empty_part\<lparr>executableCode := Some nc\<rparr>])"
proof (cases cur rule: rev_cases)
  case Nil
  with assms show ?thesis by (simp add: reduce_part_Nil)
next
  case (snoc xs lp)
  with assms show ?thesis
    by (auto simp add: reduce_part_snoc code_language_def code_text_def split: option.splits)
qed

text \<open>
  The scenario of the specification: two \<open>python\<close> fragments merge, a \<open>javascript\<close>
  fragment after them starts a new element.
\<close>

theorem code_fragment_merge_or_append_witness:
  "reduce_part [empty_part\<lparr>executableCode := Some \<lparr>language = ''python'', code = ''a''\<rparr>\<rparr>]
       (empty_part\<lparr>executableCode := Some \<lparr>language = ''python'', code = ''b''\<rparr>\<rparr>)
     = [empty_part\<lparr>executableCode := Some \<lparr>language = ''python'', code = ''ab''\<rparr>\<rparr>] \<and>
   reduce_part [empty_part\<lparr>executableCode := Some \<lparr>language = ''python'', code = ''ab''\<rparr>\<rparr>]
       (empty_part\<lparr>executableCode := Some \<lparr>language = ''javascript'', code = ''c''\<rparr>\<rparr>)
     = [empty_part\<lparr>executableCode := Some \<lparr>language = ''python'', code = ''ab''\<rparr>\<rparr>,
        empty_part\<lparr>executableCode := Some \<lparr>language = ''javascript'', code = ''c''\<rparr>\<rparr>]"
  using code_fragment_merge_or_append
          [of "empty_part\<lparr>executableCode := Some \<lparr>language = ''python'', code = ''b''\<rparr>\<rparr>"
              "\<lparr>language = ''python'', code = ''b''\<rparr>"
              "[empty_part\<lparr>executableCode := Some \<lparr>language = ''python'', code = ''a''\<rparr>\<rparr>]"]
        code_fragment_merge_or_append
          [of "empty_part\<lparr>executableCode := Some \<lparr>language = ''javascript'', code = ''c''\<rparr>\<rparr>"
              "\<lparr>language = ''javascript'', code = ''c''\<rparr>"
              "[empty_part\<lparr>executableCode := Some \<lparr>language = ''python'', code = ''ab''\<rparr>\<rparr>]"]
  by (simp add: empty_part_def truthy_text_def code_language_def code_text_def)

lemma result_or_inline_appended:
  "result_fragment frag \<or> inline_fragment frag \<Longrightarrow>
   reduce_part cur frag = cur @ [appended_copy frag]"
  by (cases cur rule: rev_cases)
     (auto simp add: reduce_part_Nil reduce_part_snoc result_fragment_def inline_fragment_def
        appended_copy_def split: option.splits)

text \<open>
  C6: for every current sequence, every incoming CodeExecutionResult fragment and every
  incoming InlineData fragment is appended as a new element holding a copy of the result
  or of the data; nothing before it changes. A batch of such fragments therefore adds one
  element per fragment, also when consecutive results share an outcome.
\<close>

theorem result_and_inline_fragments_appended:
  assumes "list_all (\<lambda>frag. result_fragment frag \<or> inline_fragment frag) frags"
  shows "reduce_parts cur frags = cur @ map appended_copy frags"
  using assms
proof (induction frags arbitrary: cur)
  case Nil
  show ?case by (simp add: reduce_parts_def)
next
  case (Cons frag frags)
  from Cons.prems have "reduce_part cur frag = cur @ [appended_copy frag]"
    by (simp add: result_or_inline_appended)
  moreover from Cons.prems have "list_all (\<lambda>frag. result_fragment frag \<or> inline_fragment frag) frags"
    by simp
  ultimately show ?case
    using Cons.IH [of "cur @ [appended_copy frag]"] by (simp add: reduce_parts_def)
qed

text \<open>Two results with the same outcome, then an image: three new elements.\<close>

theorem result_and_inline_fragments_appended_witness:
  "reduce_parts [empty_part\<lparr>codeExecutionResult := Some \<lparr>outcome = ''OUTCOME_OK'', output_str = ''1''\<rparr>\<rparr>]
     [empty_part\<lparr>codeExecutionResult := Some \<lparr>outcome = ''OUTCOME_OK'', output_str = ''2''\<rparr>\<rparr>,
      empty_part\<lparr>codeExecutionResult := Some \<lparr>outcome = ''OUTCOME_OK'', output_str = ''2''\<rparr>\<rparr>,
      empty_part\<lparr>inlineData := Some \<lparr>mimeType = ''image/png'', data = ''AAAA''\<rparr>\<rparr>]
   = [empty_part\<lparr>codeExecutionResult := Some \<lparr>outcome = ''OUTCOME_OK'', output_str = ''1''\<rparr>\<rparr>,
      empty_part\<lparr>codeExecutionResult := Some \<lparr>outcome = ''OUTCOME_OK'', output_str = ''2''\<rparr>\<rparr>,
      empty_part\<lparr>codeExecutionResult := Some \<lparr>outcome = ''OUTCOME_OK'', output_str = ''2''\<rparr>\<rparr>,
      empty_part\<lparr>inlineData := Some \<lparr>mimeType = ''image/png'', data = ''AAAA''\<rparr>\<rparr>]"
  using result_and_inline_fragments_appended
          [of "[empty_part\<lparr>codeExecutionResult := Some \<lparr>outcome = ''OUTCOME_OK'', output_str = ''2''\<rparr>\<rparr>,
                empty_part\<lparr>codeExecutionResult := Some \<lparr>outcome = ''OUTCOME_OK'', output_str = ''2''\<rparr>\<rparr>,
                empty_part\<lparr>inlineData := Some \<lparr>mimeType = ''image/png'', data = ''AAAA''\<rparr>\<rparr>]"
              "[empty_part\<lparr>codeExecutionResult := Some \<lparr>outcome = ''OUTCOME_OK'', output_str = ''1''\<rparr>\<rparr>]"]
  by (simp add: empty_part_def result_fragment_def inline_fragment_def appended_copy_def
      truthy_text_def)

section \<open>The live renderer\<close>

lemma renderPart_kind:
  "map_option view_kind (renderPart isStreaming message p index) =
     (if thought_flag p then Some ThoughtKind
      else if executableCode p \<noteq> None then Some CodeKind
      else if codeExecutionResult p \<noteq> None then Some ResultKind
      else if truthy_text (text_val p) then Some TextKind
      else if inlineData p \<noteq> None then Some ImageKind
      else None)"
  by (auto simp add: renderPart_def thought_flag_def truthy_thought_def CollapsiblePart_def
      Let_def split: option.splits thought_val.splits)

text \<open>
  C10: the live renderer shows at most one view for a Part, of the first kind the Part
  carries in the order thought, executable code, execution result, text, inline data; a
  Part that carries text and inline data and nothing before them shows its text as
  markdown, and a Part that carries none of the five shows nothing. A field is carried
  when it is present and truthy, which is what the renderer tests.
\<close>

theorem renderPart_priority:
  "map_option view_kind (renderPart isStreaming message p index)
     = find (carries p) live_priority \<and>
   (text_with_image p \<longrightarrow>
      renderPart isStreaming message p index = Some (Markdown (or_empty (text_val p)))) \<and>
   ((\<forall>k. \<not> carries p k) \<longrightarrow> renderPart isStreaming message p index = None)"
proof (intro conjI impI)
  show kind: "map_option view_kind (renderPart isStreaming message p index)
     = find (carries p) live_priority"
    by (simp add: renderPart_kind live_priority_def)
  show "renderPart isStreaming message p index = Some (Markdown (or_empty (text_val p)))"
    if "text_with_image p"
    using that
    by (auto simp add: text_with_image_def renderPart_def thought_flag_def truthy_thought_def
        split: option.splits thought_val.splits)
  show "renderPart isStreaming message p index = None" if "\<forall>k. \<not> carries p k"
  proof -
    from that have "find (carries p) live_priority = None"
      by (simp add: find_None_iff)
    with kind show ?thesis by simp
  qed
qed

theorem renderPart_priority_witness:
  "renderPart False \<lparr>msg_id = 1, role = Model, parts = [], timestamp = 2\<rparr>
     (empty_part\<lparr>text_val := Some ''hi'',
        inlineData := Some \<lparr>mimeType = ''image/png'', data = ''AAAA''\<rparr>\<rparr>) 0
     = Some (Markdown ''hi'') \<and>
   renderPart False \<lparr>msg_id = 1, role = Model, parts = [], timestamp = 2\<rparr>
     (empty_part\<lparr>functionCall := Some ''f''\<rparr>) 0 = None"
proof -
  have "\<forall>k. \<not> carries (empty_part\<lparr>functionCall := Some ''f''\<rparr>) k"
  proof
    fix k show "\<not> carries (empty_part\<lparr>functionCall := Some ''f''\<rparr>) k"
      by (cases k)
         (simp_all add: empty_part_def thought_flag_def truthy_thought_def truthy_text_def)
  qed
  then show ?thesis
    using renderPart_priority
            [of False "\<lparr>msg_id = 1, role = Model, parts = [], timestamp = 2\<rparr>"
                "empty_part\<lparr>text_val := Some ''hi'',
                   inlineData := Some \<lparr>mimeType = ''image/png'', data = ''AAAA''\<rparr>\<rparr>" 0]
          renderPart_priority
            [of False "\<lparr>msg_id = 1, role = Model, parts = [], timestamp = 2\<rparr>"
                "empty_part\<lparr>functionCall := Some ''f''\<rparr>" 0]
    by (simp add: text_with_image_def empty_part_def thought_flag_def truthy_thought_def
        truthy_text_def or_empty_def)
qed

section \<open>The live view against the export\<close>

lemma replaceAll_append: "replaceAll c r (a @ b) = replaceAll c r a @ replaceAll c r b"
  by (simp add: replaceAll_def)

lemma escapeHtml_replaces:
  "escapeHtml s =
     replaceAll (CHR 0x27) ''&#039;''
       (replaceAll (CHR 0x22) ''&quot;''
          (replaceAll CHR ''>'' ''&gt;''
             (replaceAll CHR ''<'' ''&lt;'' (replaceAll CHR ''&'' ''&amp;'' s))))"
  by (simp add: escapeHtml_def replaceAll_def)

lemma escapeHtml_append: "escapeHtml (a @ b) = escapeHtml a @ escapeHtml b"
  by (simp only: escapeHtml_replaces replaceAll_append)

lemma escapeHtml_titles:
  "escapeHtml ''Thought Process'' = ''Thought Process''"
  "escapeHtml ''Execution Result'' = ''Execution Result''"
  "escapeHtml ''Executable Code ('' = ''Executable Code (''"
  "escapeHtml '')'' = '')''"
  by (simp_all add: escapeHtml_def replaceAll_def)

lemma code_title_markup:
  "escapeHtml l = l \<Longrightarrow>
   escapeHtml (''Executable Code ('' @ l @ '')'') = ''Executable Code ('' @ l @ '')''"
  by (simp only: escapeHtml_append escapeHtml_titles)

text \<open>
  On one Part the export writes the markup of the live view, unless the Part is a thought
  without content or text together with binary data, a raw string would need escaping, or
  the live title is the streaming one.
\<close>

lemma part_markup_agrees:
  assumes "\<not> empty_thought p" and "\<not> text_with_image p" and "plain_labels p"
    and "\<not> (isStreaming \<and> int index = int (length (parts message)) - 1 \<and>
            thought_flag p \<and> boldMatches (thoughtContent p) \<noteq> [])"
  shows "map_option markup_of_view (renderPart isStreaming message p index) = exportPart p"
proof (cases "thought_flag p")
  case True
  with assms(1) have content: "thoughtContent p \<noteq> []"
    by (simp add: empty_thought_def)
  from True assms(4) have title:
    "(if isStreaming \<and> int index = int (length (parts message)) - 1 then
        (let bolds = boldMatches (thoughtContent p)
         in if length bolds > 0 then ''Thinking - '' @ last bolds else ''Thought Process'')
      else ''Thought Process'') = ''Thought Process''"
    by (auto simp add: Let_def)
  from True have live: "renderPart isStreaming message p index
      = Some (Collapsible ''Thought Process'' Brain (MarkdownBody (thoughtContent p)) None)"
    unfolding renderPart_def title
    by (auto simp add: thought_flag_def truthy_thought_def CollapsiblePart_def truthy_text_def
        split: option.splits thought_val.splits)
  from True content have "exportPart p
      = Some (Collapsible ''Thought Process'' Brain
                (MarkdownBody (escapeHtml (thoughtContent p))) None)"
    by (auto simp add: exportPart_def thought_flag_def truthy_thought_def thoughtContent_def
        createCollapsible_def truthy_text_def or_empty_def Let_def
        split: option.splits thought_val.splits)
  with live show ?thesis by (simp add: escapeHtml_titles)
next
  case False
  then have nolive: "\<not> (thought p = Some (TBool True) \<or>
      (case thought p of Some (TStr s) \<Rightarrow> length s > 0 | _ \<Rightarrow> False))"
    by (auto simp add: thought_flag_def truthy_thought_def split: option.splits thought_val.splits)
  from False have noexp: "\<not> truthy_thought (thought p)"
    by (simp add: thought_flag_def)
  show ?thesis
  proof (cases "executableCode p")
    case (Some ec)
    define t where "t = ''Executable Code ('' @ language ec @ '')''"
    from False Some assms(3) have "escapeHtml (language ec) = language ec"
      by (simp add: plain_labels_def)
    then have t: "escapeHtml t = t"
      unfolding t_def by (rule code_title_markup)
    from Some have "renderPart isStreaming message p index
        = Some (Collapsible t Code2 (CodeBody (code ec)) None)"
      unfolding renderPart_def
      by (simp only: nolive if_False) (simp add: CollapsiblePart_def truthy_text_def t_def)
    moreover from Some have "exportPart p
        = Some (Collapsible t Code2 (CodeBody (escapeHtml (code ec))) None)"
      unfolding exportPart_def
      by (simp only: noexp if_False) (simp add: createCollapsible_def truthy_text_def t_def)
    ultimately show ?thesis by (simp add: t)
  next
    case None
    from False None assms(2,3) show ?thesis
      unfolding renderPart_def exportPart_def
      by (simp only: nolive noexp if_False)
         (auto simp add: text_with_image_def plain_labels_def CollapsiblePart_def
            createCollapsible_def truthy_text_def or_empty_def escapeHtml_titles Let_def
            split: option.splits)
  qed
qed

lemma map_map_filter:
  "map h (List.map_filter f xs) = List.map_filter (\<lambda>x. map_option h (f x)) xs"
  by (induction xs) (auto split: option.splits)

lemma map_filter_enumerate:
  assumes "\<And>i p. (i, p) \<in> set (enumerate n ps) \<Longrightarrow> f i p = g p"
  shows "List.map_filter (\<lambda>(i, p). f i p) (enumerate n ps) = List.map_filter g ps"
  using assms
proof (induction ps arbitrary: n)
  case Nil
  show ?case by simp
next
  case (Cons p ps)
  have "f n p = g p" by (rule Cons.prems) simp
  moreover have "List.map_filter (\<lambda>(i, p). f i p) (enumerate (Suc n) ps) = List.map_filter g ps"
    by (rule Cons.IH) (simp add: Cons.prems)
  ultimately show ?case by (simp split: option.splits)
qed

lemma map_enumerate:
  assumes "\<And>j m. (j, m) \<in> set (enumerate n ms) \<Longrightarrow> f j m = g m"
  shows "map (\<lambda>(j, m). f j m) (enumerate n ms) = map g ms"
  using assms
proof (induction ms arbitrary: n)
  case Nil
  show ?case by simp
next
  case (Cons m ms)
  have "f n m = g m" by (rule Cons.prems) simp
  moreover have "map (\<lambda>(j, m). f j m) (enumerate (Suc n) ms) = map g ms"
    by (rule Cons.IH) (simp add: Cons.prems)
  ultimately show ?case by simp
qed

lemma enumerate_last:
  assumes "(i, x) \<in> set (enumerate 0 xs)" and "int i = int (length xs) - 1"
  shows "xs \<noteq> [] \<and> x = last xs"
proof -
  from assms(1) have "i < length xs" and "x = xs ! i"
    by (auto simp add: in_set_enumerate_eq)
  with assms(2) show ?thesis
    by (cases xs rule: rev_cases) (auto simp add: nth_append)
qed

text \<open>
  C4, as the code has it: for every transcript in which no Part is a thought without
  content, and whatever is streaming as long as the live view is not showing a
  \<open>Thinking - ...\<close> title, the export writes, message by message and Part by Part, the
  markup of what the live view shows: the same kinds in the same order with the same
  titles, badges and contents. This is stated for Parts that do not carry text together
  with binary data and whose raw strings (the language of a code section, the MIME type
  and data of an image) need no escaping.
\<close>

theorem export_is_markup_of_live_view:
  assumes "\<not> streaming_title s"
    and "\<forall>m \<in> set (messages s). \<forall>p \<in> set (parts m).
           \<not> empty_thought p \<and> \<not> text_with_image p \<and> plain_labels p"
  shows "generateHtmlFromMessages (messages s) = map markup_of_message (liveView s)"
proof -
  have item: "markup_of_message
        (ChatMessageItem m (isLoading s \<and> int j = int (length (messages s)) - 1))
      = \<lparr>shown_role = role m, shown_parts = List.map_filter exportPart (parts m),
         shown_time = timestamp m\<rparr>"
    if jm: "(j, m) \<in> set (enumerate 0 (messages s))" for j m
  proof -
    define streaming where "streaming = (isLoading s \<and> int j = int (length (messages s)) - 1)"
    from jm have m: "m \<in> set (messages s)"
      by (auto simp add: in_set_enumerate_eq)
    have part: "map_option markup_of_view (renderPart streaming m p i) = exportPart p"
      if ip: "(i, p) \<in> set (enumerate 0 (parts m))" for i p
    proof (rule part_markup_agrees)
      from ip have "p \<in> set (parts m)" by (auto simp add: in_set_enumerate_eq)
      with m assms(2) show "\<not> empty_thought p" "\<not> text_with_image p" "plain_labels p"
        by auto
      show "\<not> (streaming \<and> int i = int (length (parts m)) - 1 \<and>
              thought_flag p \<and> boldMatches (thoughtContent p) \<noteq> [])"
      proof
        assume a: "streaming \<and> int i = int (length (parts m)) - 1 \<and>
              thought_flag p \<and> boldMatches (thoughtContent p) \<noteq> []"
        then have "isLoading s" and "int j = int (length (messages s)) - 1"
          by (simp_all add: streaming_def)
        with jm have "messages s \<noteq> []" and "m = last (messages s)"
          using enumerate_last [of j m "messages s"] by simp_all
        moreover from a ip have "parts m \<noteq> []" and "p = last (parts m)"
          using enumerate_last [of i p "parts m"] by simp_all
        ultimately have "streaming_title s"
          using a \<open>isLoading s\<close> by (simp add: streaming_title_def)
        with assms(1) show False by simp
      qed
    qed
    have "map markup_of_view
            (List.map_filter (\<lambda>(i, p). renderPart streaming m p i) (enumerate 0 (parts m)))
        = List.map_filter (\<lambda>(i, p). map_option markup_of_view (renderPart streaming m p i))
            (enumerate 0 (parts m))"
      by (simp add: map_map_filter case_prod_unfold)
    also have "\<dots> = List.map_filter exportPart (parts m)"
      by (rule map_filter_enumerate) (rule part)
    finally show ?thesis
      by (simp add: markup_of_message_def ChatMessageItem_def streaming_def)
  qed
  have "map markup_of_message (liveView s)
      = map (\<lambda>(j, m). markup_of_message
               (ChatMessageItem m (isLoading s \<and> int j = int (length (messages s)) - 1)))
          (enumerate 0 (messages s))"
    by (simp add: liveView_def case_prod_unfold)
  also have "\<dots> = map (\<lambda>m. \<lparr>shown_role = role m,
                              shown_parts = List.map_filter exportPart (parts m),
                              shown_time = timestamp m\<rparr>) (messages s)"
    by (rule map_enumerate) (rule item)
  finally show ?thesis
    by (simp add: generateHtmlFromMessages_def)
qed

text \<open>
  A transcript shown while the answer is streaming: a thought whose text needs escaping,
  a code section, a result, an image and the text so far.
\<close>

theorem export_is_markup_of_live_view_witness:
  "generateHtmlFromMessages
     [\<lparr>msg_id = 1, role = Model,
       parts = [empty_part\<lparr>text_val := Some ''a<b'', thought := Some (TBool True)\<rparr>,
                empty_part\<lparr>executableCode := Some \<lparr>language = ''python'', code = ''1&2''\<rparr>\<rparr>,
                empty_part\<lparr>codeExecutionResult :=
                   Some \<lparr>outcome = ''OUTCOME_OK'', output_str = ''4''\<rparr>\<rparr>,
                empty_part\<lparr>inlineData := Some \<lparr>mimeType = ''image/png'', data = ''AAAA''\<rparr>\<rparr>,
                empty_part\<lparr>text_val := Some ''**so** far''\<rparr>],
       timestamp = 2\<rparr>]
   = [\<lparr>shown_role = Model,
       shown_parts = [Collapsible ''Thought Process'' Brain (MarkdownBody ''a&lt;b'') None,
                      Collapsible ''Executable Code (python)'' Code2 (CodeBody ''1&amp;2'') None,
                      Collapsible ''Execution Result'' Terminal (PreWrapBody ''4'')
                        (Some ''Success''),
                      Image ''image/png'' ''AAAA'',
                      Markdown ''**so** far''],
       shown_time = 2\<rparr>]"
proof -
  define s where "s =
    \<lparr>messages =
       [\<lparr>msg_id = 1, role = Model,
         parts = [empty_part\<lparr>text_val := Some ''a<b'', thought := Some (TBool True)\<rparr>,
                  empty_part\<lparr>executableCode := Some \<lparr>language = ''python'', code = ''1&2''\<rparr>\<rparr>,
                  empty_part\<lparr>codeExecutionResult :=
                     Some \<lparr>outcome = ''OUTCOME_OK'', output_str = ''4''\<rparr>\<rparr>,
                  empty_part\<lparr>inlineData := Some \<lparr>mimeType = ''image/png'', data = ''AAAA''\<rparr>\<rparr>,
                  empty_part\<lparr>text_val := Some ''**so** far''\<rparr>],
         timestamp = 2\<rparr>],
     isLoading = True\<rparr>"
  have no_title: "\<not> streaming_title s"
    by (simp add: s_def streaming_title_def thought_flag_def truthy_thought_def empty_part_def)
  have ok: "\<forall>m \<in> set (messages s). \<forall>p \<in> set (parts m).
           \<not> empty_thought p \<and> \<not> text_with_image p \<and> plain_labels p"
    by (simp add: s_def empty_thought_def text_with_image_def plain_labels_def thought_flag_def
        truthy_thought_def truthy_text_def thoughtContent_def or_empty_def empty_part_def
        escapeHtml_def replaceAll_def)
  have "generateHtmlFromMessages (messages s) = map markup_of_message (liveView s)"
    using no_title ok by (rule export_is_markup_of_live_view)
  also have "\<dots> = [\<lparr>shown_role = Model,
       shown_parts = [Collapsible ''Thought Process'' Brain (MarkdownBody ''a&lt;b'') None,
                      Collapsible ''Executable Code (python)'' Code2 (CodeBody ''1&amp;2'') None,
                      Collapsible ''Execution Result'' Terminal (PreWrapBody ''4'')
                        (Some ''Success''),
                      Image ''image/png'' ''AAAA'',
                      Markdown ''**so** far''],
       shown_time = 2\<rparr>]"
    by (simp add: s_def liveView_def ChatMessageItem_def renderPart_def CollapsiblePart_def
        markup_of_message_def thoughtContent_def truthy_text_def or_empty_def empty_part_def
        escapeHtml_def replaceAll_def)
  finally show ?thesis by (simp add: s_def)
qed

text \<open>
  C4 as stated fails in two places where the code decides otherwise. A thought fragment
  without text gives a Part that the live view shows as an empty ``Thought Process''
  section and the export leaves out. And while a thought is streaming, the live view
  titles it with its last bold passage, the export with ``Thought Process''.
\<close>

theorem live_view_and_export_differ:
  "reduce_parts [] [empty_part\<lparr>thought := Some (TBool True)\<rparr>]
     = [empty_part\<lparr>thought := Some (TBool True), text_val := Some []\<rparr>] \<and>
   liveView \<lparr>messages =
       [\<lparr>msg_id = 1, role = Model,
         parts = [empty_part\<lparr>thought := Some (TBool True), text_val := Some []\<rparr>],
         timestamp = 2\<rparr>],
     isLoading = False\<rparr>
     = [\<lparr>shown_role = Model,
         shown_parts = [Collapsible ''Thought Process'' Brain (MarkdownBody []) None],
         shown_time = 2\<rparr>] \<and>
   generateHtmlFromMessages
       [\<lparr>msg_id = 1, role = Model,
         parts = [empty_part\<lparr>thought := Some (TBool True), text_val := Some []\<rparr>],
         timestamp = 2\<rparr>]
     = [\<lparr>shown_role = Model, shown_parts = [], shown_time = 2\<rparr>] \<and>
   liveView \<lparr>messages =
       [\<lparr>msg_id = 1, role = Model,
         parts = [empty_part\<lparr>text_val := Some ''**Plan** go'', thought := Some (TBool True)\<rparr>],
         timestamp = 2\<rparr>],
     isLoading = True\<rparr>
     = [\<lparr>shown_role = Model,
         shown_parts = [Collapsible ''Thinking - Plan'' Brain (MarkdownBody ''**Plan** go'') None],
         shown_time = 2\<rparr>] \<and>
   generateHtmlFromMessages
       [\<lparr>msg_id = 1, role = Model,
         parts = [empty_part\<lparr>text_val := Some ''**Plan** go'', thought := Some (TBool True)\<rparr>],
         timestamp = 2\<rparr>]
     = [\<lparr>shown_role = Model,
         shown_parts = [Collapsible ''Thought Process'' Brain (MarkdownBody ''**Plan** go'') None],
         shown_time = 2\<rparr>] \<and>
   generateHtmlFromMessages
       [\<lparr>msg_id = 1, role = Model,
         parts = [empty_part\<lparr>thought := Some (TBool True), text_val := Some []\<rparr>],
         timestamp = 2\<rparr>]
     \<noteq> map markup_of_message
         (liveView \<lparr>messages =
            [\<lparr>msg_id = 1, role = Model,
              parts = [empty_part\<lparr>thought := Some (TBool True), text_val := Some []\<rparr>],
              timestamp = 2\<rparr>],
          isLoading = False\<rparr>) \<and>
   generateHtmlFromMessages
       [\<lparr>msg_id = 1, role = Model,
         parts = [empty_part\<lparr>text_val := Some ''**Plan** go'', thought := Some (TBool True)\<rparr>],
         timestamp = 2\<rparr>]
     \<noteq> map markup_of_message
         (liveView \<lparr>messages =
            [\<lparr>msg_id = 1, role = Model,
              parts = [empty_part\<lparr>text_val := Some ''**Plan** go'',
                         thought := Some (TBool True)\<rparr>],
              timestamp = 2\<rparr>],
          isLoading = True\<rparr>)"
  by (simp add: markup_of_message_def reduce_parts_def reduce_part_def liveView_def ChatMessageItem_def
      renderPart_def CollapsiblePart_def generateHtmlFromMessages_def exportPart_def
      createCollapsible_def thoughtContent_def truthy_thought_def truthy_text_def
      or_empty_def empty_part_def escapeHtml_def replaceAll_def)

text \<open>
  The two renderers also differ where the export interpolates a string raw or tests the
  fields in another order: a language with an entity in it is written into the title
  unescaped, and a Part with text and binary data is shown as text by the live view and
  as an image by the export. The statement of C4 above leaves these Parts aside.
\<close>

lemma export_raw_title_and_field_order:
  "map_option markup_of_view
     (renderPart False \<lparr>msg_id = 1, role = Model, parts = [], timestamp = 2\<rparr>
        (empty_part\<lparr>executableCode := Some \<lparr>language = ''a&amp;b'', code = ''x''\<rparr>\<rparr>) 0)
     = Some (Collapsible ''Executable Code (a&amp;amp;b)'' Code2 (CodeBody ''x'') None) \<and>
   exportPart (empty_part\<lparr>executableCode := Some \<lparr>language = ''a&amp;b'', code = ''x''\<rparr>\<rparr>)
     = Some (Collapsible ''Executable Code (a&amp;b)'' Code2 (CodeBody ''x'') None) \<and>
   renderPart False \<lparr>msg_id = 1, role = Model, parts = [], timestamp = 2\<rparr>
        (empty_part\<lparr>text_val := Some ''hi'',
           inlineData := Some \<lparr>mimeType = ''image/png'', data = ''AAAA''\<rparr>\<rparr>) 0
     = Some (Markdown ''hi'') \<and>
   exportPart (empty_part\<lparr>text_val := Some ''hi'',
                 inlineData := Some \<lparr>mimeType = ''image/png'', data = ''AAAA''\<rparr>\<rparr>)
     = Some (Image ''image/png'' ''AAAA'')"
  by (simp add: renderPart_def exportPart_def CollapsiblePart_def createCollapsible_def
      truthy_thought_def truthy_text_def or_empty_def empty_part_def escapeHtml_def
      replaceAll_def)

section \<open>The history sent upstream\<close>

lemma cleanPart_stripped: "cleanPart p = stripped p"
  by (cases p)
     (auto simp add: cleanPart_def stripped_def empty_part_def truthy_text_def Let_def
        split: option.splits)

lemma cleanPart_empty: "cleanPart p = empty_part \<longleftrightarrow> \<not> has_content p"
  by (cases p)
     (auto simp add: cleanPart_def has_content_def empty_part_def truthy_text_def Let_def
        split: option.splits)

lemma stripped_empty: "stripped p = empty_part \<longleftrightarrow> \<not> has_content p"
  using cleanPart_empty [of p] by (simp add: cleanPart_stripped)

lemma clean_parts_kept:
  "filter (\<lambda>p. p \<noteq> empty_part) (map cleanPart ps) = map stripped (filter has_content ps)"
  by (induction ps) (simp_all add: cleanPart_stripped stripped_empty)

text \<open>
  C8: the history has one turn per message, with the message's role. The Parts of a turn
  are the message's Parts that have content, in order, each without its thought flag and
  without an empty text; Parts without content, empty-text Parts among them, are left
  out. A turn that would have no Part gets the single Part whose text is one space. No
  Part of the history has a thought flag, and none is empty.
\<close>

theorem history_stripped_and_padded:
  "buildHistory msgs =
     map (\<lambda>m. \<lparr>content_role = role m,
                content_parts =
                  (if filter has_content (parts m) = [] then [space_part]
                   else map stripped (filter has_content (parts m)))\<rparr>) msgs \<and>
   (\<forall>c \<in> set (buildHistory msgs). content_parts c \<noteq> [] \<and>
      (\<forall>p \<in> set (content_parts c). thought p = None \<and> p \<noteq> empty_part))"
proof
  show eq: "buildHistory msgs =
     map (\<lambda>m. \<lparr>content_role = role m,
                content_parts =
                  (if filter has_content (parts m) = [] then [space_part]
                   else map stripped (filter has_content (parts m)))\<rparr>) msgs"
    by (simp add: buildHistory_def clean_parts_kept space_part_def Let_def)
  have kept: "thought (stripped p) = None \<and> stripped p \<noteq> empty_part" if "has_content p" for p
  proof -
    have "thought (stripped p) = None" by (simp add: stripped_def)
    moreover from that have "stripped p \<noteq> empty_part" by (simp add: stripped_empty)
    ultimately show ?thesis by simp
  qed
  have space: "thought space_part = None \<and> space_part \<noteq> empty_part"
    by (simp add: space_part_def empty_part_def)
  show "\<forall>c \<in> set (buildHistory msgs). content_parts c \<noteq> [] \<and>
      (\<forall>p \<in> set (content_parts c). thought p = None \<and> p \<noteq> empty_part)"
    unfolding eq using kept space by auto
qed

theorem history_stripped_and_padded_witness:
  "buildHistory
     [\<lparr>msg_id = 1, role = User, parts = [empty_part\<lparr>text_val := Some []\<rparr>], timestamp = 1\<rparr>,
      \<lparr>msg_id = 2, role = Model,
       parts = [empty_part\<lparr>text_val := Some ''plan'', thought := Some (TBool True)\<rparr>,
                empty_part\<lparr>thought := Some (TBool True), text_val := Some []\<rparr>,
                empty_part\<lparr>text_val := Some ''done''\<rparr>],
       timestamp = 2\<rparr>]
   = [\<lparr>content_role = User, content_parts = [empty_part\<lparr>text_val := Some '' ''\<rparr>]\<rparr>,
      \<lparr>content_role = Model,
       content_parts = [empty_part\<lparr>text_val := Some ''plan''\<rparr>,
                        empty_part\<lparr>text_val := Some ''done''\<rparr>]\<rparr>]"
  using history_stripped_and_padded
          [of "[\<lparr>msg_id = 1, role = User, parts = [empty_part\<lparr>text_val := Some []\<rparr>],
                 timestamp = 1\<rparr>,
                \<lparr>msg_id = 2, role = Model,
                 parts = [empty_part\<lparr>text_val := Some ''plan'', thought := Some (TBool True)\<rparr>,
                          empty_part\<lparr>thought := Some (TBool True), text_val := Some []\<rparr>,
                          empty_part\<lparr>text_val := Some ''done''\<rparr>],
                 timestamp = 2\<rparr>]"]
  by (simp add: has_content_def stripped_def space_part_def truthy_text_def empty_part_def)

section \<open>One call of the send handler\<close>

lemma streamUpdate_last:
  "msg_id m = mid \<Longrightarrow>
   streamUpdate mid newParts (ms @ [m]) = Some (ms @ [m\<lparr>parts := reduce_parts (parts m) newParts\<rparr>])"
  by (simp add: streamUpdate_def)

lemma consume_last:
  "msg_id m = mid \<Longrightarrow>
   consume mid chunks (ms @ [m]) = Some (ms @ [m\<lparr>parts := foldl reduce_parts (parts m) chunks\<rparr>])"
proof (induction chunks arbitrary: m)
  case Nil
  show ?case by simp
next
  case (Cons newParts chunks)
  from Cons.prems have "msg_id (m\<lparr>parts := reduce_parts (parts m) newParts\<rparr>) = mid"
    by simp
  from Cons.IH [OF this] Cons.prems show ?case
    by (simp add: streamUpdate_last)
qed

text \<open>
  The call never hits the throwing updater, and its result is known in full: the user
  message, then for a stream the model message with the reduction of all chunks, then
  the error message if the upstream failed.
\<close>

lemma handleSendMessage_run:
  "handleSendMessage clock msg_text img upstream s =
     Some \<lparr>messages =
             messages s @ user_message clock msg_text img #
               (case upstream of
                  SendRejected \<Rightarrow> [errorMessage (clock 2) (clock 3)]
                | Streamed chunks failed \<Rightarrow>
                    model_message clock (foldl reduce_parts [] chunks) #
                      (if failed then [errorMessage (clock 4) (clock 5)] else [])),
           isLoading = False\<rparr>"
proof (cases upstream)
  case SendRejected
  then show ?thesis
    by (simp add: handleSendMessage_def user_message_def Let_def)
next
  case (Streamed chunks failed)
  have "consume (clock 2 + 1) chunks
          ((messages s @ [user_message clock msg_text img]) @ [model_message clock []])
        = Some ((messages s @ [user_message clock msg_text img]) @
                 [model_message clock (foldl reduce_parts [] chunks)])"
    using consume_last [of "model_message clock []" "clock 2 + 1" chunks
                           "messages s @ [user_message clock msg_text img]"]
    by (simp add: model_message_def)
  with Streamed show ?thesis
    by (simp add: handleSendMessage_def user_message_def model_message_def Let_def)
qed

lemma userParts_nonempty: "userParts msg_text img \<noteq> []"
  by (cases img) (simp_all add: userParts_def Let_def)

text \<open>
  C3, as the code has it: the messages a call commits are the user message, the model
  message and the error message. The user message and the error message never have an
  empty Part sequence, a user message without content being the single Part whose text is
  one space. The model message is committed with an empty Part sequence, and a committed
  message with no Part is always that model message, still empty because every fragment
  received so far was dropped.
\<close>

theorem committed_parts_empty_only_for_model:
  "(\<exists>new. handleSendMessage clock msg_text img upstream s
            = Some \<lparr>messages = messages s @ new, isLoading = False\<rparr> \<and>
          (\<forall>m \<in> set new. parts m = [] \<longrightarrow>
             m = model_message clock [] \<and>
             (\<exists>chunks failed. upstream = Streamed chunks failed \<and>
                foldl reduce_parts [] chunks = []))) \<and>
   (img \<noteq> NoImage \<and> img \<noteq> Unmatched \<or> parts (user_message clock [] img) = [space_part]) \<and>
   handleSendMessage clock msg_text img (Streamed [] False) s
     = Some \<lparr>messages = messages s @ [user_message clock msg_text img, model_message clock []],
             isLoading = False\<rparr>"
proof (intro conjI)
  have user: "parts (user_message clock msg_text img) \<noteq> []"
    by (simp add: user_message_def userParts_nonempty)
  have err: "parts (errorMessage a b) \<noteq> []" for a b
    by (simp add: errorMessage_def)
  show "\<exists>new. handleSendMessage clock msg_text img upstream s
            = Some \<lparr>messages = messages s @ new, isLoading = False\<rparr> \<and>
          (\<forall>m \<in> set new. parts m = [] \<longrightarrow>
             m = model_message clock [] \<and>
             (\<exists>chunks failed. upstream = Streamed chunks failed \<and>
                foldl reduce_parts [] chunks = []))"
  proof (cases upstream)
    case SendRejected
    with user err show ?thesis
      by (simp add: handleSendMessage_run)
  next
    case (Streamed chunks failed)
    have model: "parts (model_message clock ps) = [] \<longleftrightarrow> ps = []" for ps
      by (simp add: model_message_def)
    from Streamed user err model show ?thesis
      by (auto simp add: handleSendMessage_run)
  qed
  show "img \<noteq> NoImage \<and> img \<noteq> Unmatched \<or> parts (user_message clock [] img) = [space_part]"
    by (cases img) (simp_all add: user_message_def userParts_def space_part_def)
  show "handleSendMessage clock msg_text img (Streamed [] False) s
     = Some \<lparr>messages = messages s @ [user_message clock msg_text img, model_message clock []],
             isLoading = False\<rparr>"
    by (simp add: handleSendMessage_run)
qed

theorem committed_parts_empty_only_for_model_witness:
  "handleSendMessage (\<lambda>i. 1000 + int i) [] NoImage SendRejected
     \<lparr>messages = [], isLoading = False\<rparr>
   = Some \<lparr>messages =
        [\<lparr>msg_id = 1000, role = User, parts = [empty_part\<lparr>text_val := Some '' ''\<rparr>],
          timestamp = 1001\<rparr>,
         \<lparr>msg_id = 1004, role = Model, parts = [empty_part\<lparr>text_val := Some apology\<rparr>],
          timestamp = 1003\<rparr>],
      isLoading = False\<rparr>"
proof -
  from committed_parts_empty_only_for_model
         [of "\<lambda>i. 1000 + int i" "[]" NoImage SendRejected "\<lparr>messages = [], isLoading = False\<rparr>"]
  have "parts (user_message (\<lambda>i. 1000 + int i) [] NoImage) = [space_part]"
    by simp
  then have "user_message (\<lambda>i. 1000 + int i) [] NoImage =
      \<lparr>msg_id = 1000, role = User, parts = [empty_part\<lparr>text_val := Some '' ''\<rparr>],
       timestamp = 1001\<rparr>"
    by (simp add: user_message_def space_part_def)
  then show ?thesis
    by (simp add: handleSendMessage_run errorMessage_def)
qed

text \<open>
  C3 as stated fails: when the stream brings no fragment with content, the transcript
  keeps a model message whose Part sequence is empty.
\<close>

theorem model_message_committed_empty:
  "handleSendMessage (\<lambda>i. 1000 + int i) ''hi'' NoImage (Streamed [[]] False)
     \<lparr>messages = [], isLoading = False\<rparr>
   = Some \<lparr>messages =
        [\<lparr>msg_id = 1000, role = User, parts = [empty_part\<lparr>text_val := Some ''hi''\<rparr>],
          timestamp = 1001\<rparr>,
         \<lparr>msg_id = 1003, role = Model, parts = [], timestamp = 1003\<rparr>],
      isLoading = False\<rparr>"
  by (simp add: handleSendMessage_def userParts_def streamUpdate_def reduce_parts_def Let_def)

text \<open>
  A call that no other event interrupts. When the upstream fails, whether the call is
  rejected or the stream breaks after some chunks, the handler appends one model message
  with the fixed apology to the transcript as it stands at the failure and clears the
  loading flag, which enables the input again. The transcript at the failure, with the
  user message and everything streamed into the model message, is the transcript a
  stream ending normally after the same chunks leaves, and it is a prefix of the result.
\<close>

theorem stream_failure_appends_apology:
  "handleSendMessage clock msg_text img (Streamed chunks False) s
     = Some \<lparr>messages = messages s @ [user_message clock msg_text img,
                                       model_message clock (foldl reduce_parts [] chunks)],
             isLoading = False\<rparr> \<and>
   handleSendMessage clock msg_text img (Streamed chunks True) s
     = Some \<lparr>messages = (messages s @ [user_message clock msg_text img,
                                        model_message clock (foldl reduce_parts [] chunks)])
                         @ [errorMessage (clock 4) (clock 5)],
             isLoading = False\<rparr> \<and>
   handleSendMessage clock msg_text img SendRejected s
     = Some \<lparr>messages = (messages s @ [user_message clock msg_text img])
                         @ [errorMessage (clock 2) (clock 3)],
             isLoading = False\<rparr> \<and>
   errorMessage a b = \<lparr>msg_id = a + 2, role = Model,
                       parts = [empty_part\<lparr>text_val :=
                                  Some ''Sorry, I encountered an error. Please try again.''\<rparr>],
                       timestamp = b\<rparr>"
  by (simp add: handleSendMessage_run errorMessage_def apology_def)

text \<open>A stream that breaks after one chunk: the streamed text stays, the apology follows.\<close>

theorem stream_failure_appends_apology_witness:
  "handleSendMessage (\<lambda>i. 1000 + int i) ''hi'' NoImage
     (Streamed [[empty_part\<lparr>text_val := Some ''Hel''\<rparr>, empty_part\<lparr>text_val := Some ''lo''\<rparr>]] True)
     \<lparr>messages = [], isLoading = False\<rparr>
   = Some \<lparr>messages =
        [\<lparr>msg_id = 1000, role = User, parts = [empty_part\<lparr>text_val := Some ''hi''\<rparr>],
          timestamp = 1001\<rparr>,
         \<lparr>msg_id = 1003, role = Model, parts = [empty_part\<lparr>text_val := Some ''Hello''\<rparr>],
          timestamp = 1003\<rparr>,
         \<lparr>msg_id = 1006, role = Model,
          parts = [empty_part\<lparr>text_val :=
                     Some ''Sorry, I encountered an error. Please try again.''\<rparr>],
          timestamp = 1005\<rparr>],
      isLoading = False\<rparr>"
  using stream_failure_appends_apology
          [of "\<lambda>i. 1000 + int i" "''hi''" NoImage
              "[[empty_part\<lparr>text_val := Some ''Hel''\<rparr>, empty_part\<lparr>text_val := Some ''lo''\<rparr>]]"
              "\<lparr>messages = [], isLoading = False\<rparr>" 1004 1005]
  by (simp add: user_message_def model_message_def userParts_def reduce_parts_def
      reduce_part_def isMergeableText_def truthy_text_def truthy_thought_def or_empty_def
      empty_part_def Let_def)

section \<open>The reducer does not write into what it was given\<close>

lemma push_new_cells:
  "part_cells (push_new cp q st) = part_cells st @ [q]"
  "array_cells (push_new cp q st)
     = (array_cells st)[cp := array_cells st ! cp @ [length (part_cells st)]]"
  by (simp_all add: push_new_def new_part_def array_push_def)

lemma set_new_cells:
  "part_cells (set_new cp i q st) = part_cells st @ [q]"
  "array_cells (set_new cp i q st)
     = (array_cells st)[cp := (array_cells st ! cp)[i := length (part_cells st)]]"
  by (simp_all add: set_new_def new_part_def array_set_def)

text \<open>
  On an array whose references are valid, an iteration on the store does one of three
  things, and the iteration on values does the same to the Parts the array holds: nothing,
  a push of a new Part, or the replacement of the last reference by a new Part.
\<close>

lemma reduce_part_store_cases:
  assumes "wf_array st cp"
  shows "(reduce_part_store cp p st = Some st \<and>
            reduce_part (parts_of st cp) p = parts_of st cp) \<or>
         (\<exists>q. reduce_part_store cp p st = Some (push_new cp q st) \<and>
            reduce_part (parts_of st cp) p = parts_of st cp @ [q]) \<or>
         (\<exists>q. array_cells st ! cp \<noteq> [] \<and>
            reduce_part_store cp p st
              = Some (set_new cp (length (array_cells st ! cp) - 1) q st) \<and>
            reduce_part (parts_of st cp) p = butlast (parts_of st cp) @ [q])"
proof (cases "array_cells st ! cp" rule: rev_cases)
  case Nil
  with assms have "array_at st cp = Some []"
    by (simp add: array_at_def wf_array_def)
  with Nil show ?thesis
    by (simp add: reduce_part_store_def parts_of_def reduce_part_Nil split: option.splits)
next
  case (snoc rs r)
  with assms have arr: "array_at st cp = Some (rs @ [r])"
    and r: "part_at st r = Some (part_cells st ! r)"
    by (simp_all add: array_at_def part_at_def wf_array_def)
  from snoc have vals: "parts_of st cp = map (\<lambda>r. part_cells st ! r) rs @ [part_cells st ! r]"
    by (simp add: parts_of_def)
  show ?thesis
    unfolding vals reduce_part_snoc
    using arr r snoc
    by (simp add: reduce_part_store_def split: option.splits)
qed

lemma map_nth_append_old:
  "list_all (\<lambda>r. r < length P) rs \<Longrightarrow> map (\<lambda>r. (P @ [q]) ! r) rs = map (\<lambda>r. P ! r) rs"
  by (induction rs) (simp_all add: nth_append)

lemma valid_after_alloc:
  "list_all (\<lambda>r. r < n) rs \<Longrightarrow> list_all (\<lambda>r. r < Suc n) (rs @ [n])"
  by (induction rs) simp_all

lemma butlast_kept_fresh:
  assumes "prefix kept refs0" and "list_all (\<lambda>r. n \<le> r) fresh" and "n \<le> m"
  shows "\<exists>kept' fresh'. butlast (kept @ fresh) @ [m] = kept' @ fresh' \<and>
           prefix kept' refs0 \<and> list_all (\<lambda>r. n \<le> r) fresh'"
proof (cases "fresh = []")
  case True
  have "prefix (butlast kept) refs0"
    using assms(1) prefixeq_butlast prefix_order.trans by blast
  with True assms(3) show ?thesis
    by (intro exI [of _ "butlast kept"] exI [of _ "[m]"]) simp
next
  case False
  from assms(2) have "list_all (\<lambda>r. n \<le> r) (butlast fresh)"
    by (auto simp add: list_all_iff dest: in_set_butlastD)
  with False assms(1,3) show ?thesis
    by (intro exI [of _ kept] exI [of _ "butlast fresh @ [m]"]) (simp add: butlast_append)
qed

text \<open>
  The invariant of the loop. \<open>P0\<close> and \<open>A0\<close> are the cells before the state updater
  ran, \<open>refs0\<close> the array it copied. The old cells are still there, the only new array
  is \<open>currentParts\<close>, and it holds a prefix of the copied references followed by
  references to Parts made since.
\<close>

lemma reduce_part_store_step:
  assumes pre: "prefix P0 (part_cells st)"
    and arr: "array_cells st = A0 @ [kept @ fresh]"
    and kept: "prefix kept refs0"
    and fresh: "list_all (\<lambda>r. length P0 \<le> r) fresh"
    and valid: "list_all (\<lambda>r. r < length (part_cells st)) (kept @ fresh)"
  shows "\<exists>st' kept' fresh'.
           reduce_part_store (length A0) p st = Some st' \<and>
           prefix P0 (part_cells st') \<and>
           array_cells st' = A0 @ [kept' @ fresh'] \<and>
           prefix kept' refs0 \<and>
           list_all (\<lambda>r. length P0 \<le> r) fresh' \<and>
           list_all (\<lambda>r. r < length (part_cells st')) (kept' @ fresh') \<and>
           parts_of st' (length A0) = reduce_part (parts_of st (length A0)) p"
proof -
  define cp where "cp = length A0"
  define P where "P = part_cells st"
  define refs where "refs = kept @ fresh"
  define vals where "vals = map (\<lambda>r. P ! r) refs"
  from arr have cell: "array_cells st ! cp = refs" by (simp add: cp_def refs_def)
  from valid have valid': "list_all (\<lambda>r. r < length P) refs" by (simp add: refs_def P_def)
  from arr valid have wf: "wf_array st cp" by (simp add: wf_array_def cp_def)
  from pre have len: "length P0 \<le> length P" unfolding P_def by (rule prefix_length_le)
  have vals: "parts_of st cp = vals"
    by (simp add: parts_of_def cell vals_def P_def)
  from reduce_part_store_cases [OF wf, of p]
  consider
    (skip) "reduce_part_store cp p st = Some st" "reduce_part vals p = vals"
  | (push) q where "reduce_part_store cp p st = Some (push_new cp q st)"
      "reduce_part vals p = vals @ [q]"
  | (set) q where "refs \<noteq> []"
      "reduce_part_store cp p st = Some (set_new cp (length refs - 1) q st)"
      "reduce_part vals p = butlast vals @ [q]"
    unfolding cell vals by blast
  then have "\<exists>st' kept' fresh'.
           reduce_part_store cp p st = Some st' \<and>
           prefix P0 (part_cells st') \<and>
           array_cells st' = A0 @ [kept' @ fresh'] \<and>
           prefix kept' refs0 \<and>
           list_all (\<lambda>r. length P0 \<le> r) fresh' \<and>
           list_all (\<lambda>r. r < length (part_cells st')) (kept' @ fresh') \<and>
           parts_of st' cp = reduce_part vals p"
  proof cases
    case skip
    with pre arr kept fresh valid vals show ?thesis by auto
  next
    case (push q)
    define st' where "st' = push_new cp q st"
    have P': "part_cells st' = P @ [q]" by (simp add: st'_def push_new_cells P_def)
    have A': "array_cells st' = A0 @ [refs @ [length P]]"
      by (simp add: st'_def push_new_cells arr cp_def refs_def P_def)
    have "prefix P0 (part_cells st')"
      using pre by (simp add: P' P_def)
    moreover have "array_cells st' = A0 @ [kept @ (fresh @ [length P])]"
      by (simp add: A' refs_def)
    moreover have "list_all (\<lambda>r. length P0 \<le> r) (fresh @ [length P])"
      using fresh len by simp
    moreover have "list_all (\<lambda>r. r < length (part_cells st')) (kept @ (fresh @ [length P]))"
      using valid_after_alloc [OF valid'] by (simp add: P' refs_def)
    moreover have "parts_of st' cp = reduce_part vals p"
    proof -
      have "parts_of st' cp = map (\<lambda>r. (P @ [q]) ! r) refs @ [q]"
        by (simp add: parts_of_def A' P' cp_def)
      also have "\<dots> = vals @ [q]"
        unfolding vals_def using map_nth_append_old [OF valid', of q] by simp
      finally show ?thesis by (simp only: push(2))
    qed
    ultimately show ?thesis
      using push(1) kept unfolding st'_def by blast
  next
    case (set q)
    define st' where "st' = set_new cp (length refs - 1) q st"
    have P': "part_cells st' = P @ [q]" by (simp add: st'_def set_new_cells P_def)
    have upd: "refs[length refs - 1 := length P] = butlast refs @ [length P]"
      using set(1) by (induction refs rule: rev_induct) (simp_all add: list_update_append)
    have "array_cells st' = A0 @ [refs[length refs - 1 := length P]]"
      by (simp add: st'_def set_new_cells arr cp_def refs_def P_def)
    then have A': "array_cells st' = A0 @ [butlast refs @ [length P]]"
      by (simp only: upd)
    from butlast_kept_fresh [OF kept fresh len]
    obtain kept' fresh' where shape: "butlast refs @ [length P] = kept' @ fresh'"
      and kept': "prefix kept' refs0" and fresh': "list_all (\<lambda>r. length P0 \<le> r) fresh'"
      unfolding refs_def by blast
    have old: "list_all (\<lambda>r. r < length P) (butlast refs)"
      using valid' by (auto simp add: list_all_iff dest: in_set_butlastD)
    have "prefix P0 (part_cells st')"
      using pre by (simp add: P' P_def)
    moreover have "array_cells st' = A0 @ [kept' @ fresh']"
      by (simp only: A' shape)
    moreover have "list_all (\<lambda>r. r < length (part_cells st')) (kept' @ fresh')"
      unfolding shape [symmetric] using valid_after_alloc [OF old] by (simp add: P')
    moreover have "parts_of st' cp = reduce_part vals p"
    proof -
      have "parts_of st' cp = map (\<lambda>r. (P @ [q]) ! r) (butlast refs) @ [q]"
        by (simp add: parts_of_def A' P' cp_def)
      also have "\<dots> = map (\<lambda>r. P ! r) (butlast refs) @ [q]"
        using map_nth_append_old [OF old, of q] by simp
      also have "\<dots> = butlast vals @ [q]"
        by (simp add: vals_def map_butlast)
      finally show ?thesis by (simp only: set(3))
    qed
    ultimately show ?thesis
      using set(2) kept' fresh' unfolding st'_def by blast
  qed
  then show ?thesis
    unfolding vals [symmetric] cp_def .
qed

lemma reduce_parts_store_loop:
  assumes "prefix P0 (part_cells st)"
    and "array_cells st = A0 @ [kept @ fresh]"
    and "prefix kept refs0"
    and "list_all (\<lambda>r. length P0 \<le> r) fresh"
    and "list_all (\<lambda>r. r < length (part_cells st)) (kept @ fresh)"
  shows "\<exists>st' kept' fresh'.
           reduce_parts_store (length A0) ps st = Some st' \<and>
           prefix P0 (part_cells st') \<and>
           array_cells st' = A0 @ [kept' @ fresh'] \<and>
           prefix kept' refs0 \<and>
           list_all (\<lambda>r. length P0 \<le> r) fresh' \<and>
           parts_of st' (length A0) = reduce_parts (parts_of st (length A0)) ps"
  using assms
proof (induction ps arbitrary: st kept fresh)
  case Nil
  then show ?case by (auto simp add: reduce_parts_def)
next
  case (Cons p ps)
  from reduce_part_store_step [OF Cons.prems, of p]
  obtain st1 kept1 fresh1 where step: "reduce_part_store (length A0) p st = Some st1"
    and inv: "prefix P0 (part_cells st1)" "array_cells st1 = A0 @ [kept1 @ fresh1]"
      "prefix kept1 refs0" "list_all (\<lambda>r. length P0 \<le> r) fresh1"
      "list_all (\<lambda>r. r < length (part_cells st1)) (kept1 @ fresh1)"
    and val: "parts_of st1 (length A0) = reduce_part (parts_of st (length A0)) p"
    by blast
  from Cons.IH [OF inv] step val show ?case
    by (simp add: reduce_parts_def)
qed

lemma prefix_nth_old: "prefix P0 P \<Longrightarrow> r < length P0 \<Longrightarrow> P ! r = P0 ! r"
  by (auto simp add: prefix_def nth_append)

text \<open>
  C7: the state updater, run on a store in which the array of the current Parts holds
  valid references, always returns and writes into no cell that existed before: every
  Part object and every array of the store, the current sequence among them, is afterwards
  what it was. The result is a new array. It shares with the current sequence only
  references it kept in place, as a prefix; every other element, each merged one among
  them, is a Part constructed during the step. What the new array holds is the value
  the reducer computes from the Parts of the current sequence.
\<close>

theorem updateParts_writes_fresh_cells_only:
  assumes "wf_array st src"
  shows "\<exists>cp st' kept fresh.
           updateParts src newParts st = Some (cp, st') \<and>
           prefix (part_cells st) (part_cells st') \<and>
           prefix (array_cells st) (array_cells st') \<and>
           cp = length (array_cells st) \<and>
           array_cells st' ! cp = kept @ fresh \<and>
           prefix kept (array_cells st ! src) \<and>
           list_all (\<lambda>r. length (part_cells st) \<le> r) fresh \<and>
           parts_of st' src = parts_of st src \<and>
           parts_of st' cp = reduce_parts (parts_of st src) newParts"
proof -
  define P0 where "P0 = part_cells st"
  define A0 where "A0 = array_cells st"
  define refs0 where "refs0 = A0 ! src"
  define st1 where "st1 = st\<lparr>array_cells := A0 @ [refs0]\<rparr>"
  from assms have src: "src < length A0" and valid0: "list_all (\<lambda>r. r < length P0) refs0"
    by (simp_all add: wf_array_def A0_def P0_def refs0_def)
  have vals1: "parts_of st1 (length A0) = parts_of st src"
    using src by (simp add: parts_of_def st1_def A0_def refs0_def)
  have "prefix P0 (part_cells st1)" by (simp add: st1_def P0_def)
  moreover have "array_cells st1 = A0 @ [refs0 @ []]" by (simp add: st1_def)
  moreover have "prefix refs0 refs0" by simp
  moreover have "list_all (\<lambda>r. length P0 \<le> r) []" by simp
  moreover have "list_all (\<lambda>r. r < length (part_cells st1)) (refs0 @ [])"
    using valid0 by (simp add: st1_def P0_def)
  ultimately obtain st' kept fresh
    where run: "reduce_parts_store (length A0) newParts st1 = Some st'"
      and pre: "prefix P0 (part_cells st')"
      and arr: "array_cells st' = A0 @ [kept @ fresh]"
      and kept: "prefix kept refs0"
      and fresh: "list_all (\<lambda>r. length P0 \<le> r) fresh"
      and val: "parts_of st' (length A0) = reduce_parts (parts_of st1 (length A0)) newParts"
    using reduce_parts_store_loop [of P0 st1 A0 refs0 "[]" refs0 newParts] by blast
  have same: "parts_of st' src = parts_of st src"
  proof -
    from arr src have "array_cells st' ! src = refs0"
      by (simp add: nth_append refs0_def)
    moreover have "map (\<lambda>r. part_cells st' ! r) refs0 = map (\<lambda>r. P0 ! r) refs0"
      using valid0 prefix_nth_old [OF pre] by (simp add: list_all_iff)
    ultimately show ?thesis
      by (simp add: parts_of_def P0_def refs0_def A0_def)
  qed
  from arr have cell: "array_cells st' ! length A0 = kept @ fresh" by simp
  from arr have old: "prefix A0 (array_cells st')" by simp
  from run src have "updateParts src newParts st = Some (length A0, st')"
    by (simp add: updateParts_def array_at_def new_array_def st1_def A0_def refs0_def)
  with pre old cell kept fresh same val vals1 show ?thesis
    unfolding P0_def [symmetric] A0_def [symmetric] refs0_def [symmetric]
    by (intro exI [of _ "length A0"] exI [of _ st'] exI [of _ kept] exI [of _ fresh])
       (simp add: P0_def A0_def refs0_def)
qed

text \<open>
  A store with the Part \<open>Hello\<close> in the current sequence: the text \<open> world\<close> is merged
  into a new Part in a new array, and the old Part and the old array stay.
\<close>

theorem updateParts_writes_fresh_cells_only_witness:
  "wf_array \<lparr>part_cells = [empty_part\<lparr>text_val := Some ''Hello''\<rparr>], array_cells = [[0]]\<rparr> 0 \<and>
   (\<exists>cp st'.
      updateParts 0
          [empty_part\<lparr>text_val := Some '' world''\<rparr>,
           empty_part\<lparr>executableCode := Some \<lparr>language = ''python'', code = ''x''\<rparr>\<rparr>]
          \<lparr>part_cells = [empty_part\<lparr>text_val := Some ''Hello''\<rparr>], array_cells = [[0]]\<rparr>
        = Some (cp, st') \<and>
      prefix [empty_part\<lparr>text_val := Some ''Hello''\<rparr>] (part_cells st') \<and>
      prefix [[0]] (array_cells st') \<and>
      cp = 1 \<and>
      parts_of st' cp
        = [empty_part\<lparr>text_val := Some ''Hello world''\<rparr>,
           empty_part\<lparr>executableCode := Some \<lparr>language = ''python'', code = ''x''\<rparr>\<rparr>])"
proof -
  define st0 where
    "st0 = \<lparr>part_cells = [empty_part\<lparr>text_val := Some ''Hello''\<rparr>], array_cells = [[0]]\<rparr>"
  define news where
    "news = [empty_part\<lparr>text_val := Some '' world''\<rparr>,
             empty_part\<lparr>executableCode := Some \<lparr>language = ''python'', code = ''x''\<rparr>\<rparr>]"
  have wf: "wf_array st0 0"
    by (simp add: wf_array_def st0_def)
  have val: "reduce_parts (parts_of st0 0) news
      = [empty_part\<lparr>text_val := Some ''Hello world''\<rparr>,
         empty_part\<lparr>executableCode := Some \<lparr>language = ''python'', code = ''x''\<rparr>\<rparr>]"
    by (simp add: st0_def news_def parts_of_def reduce_parts_def reduce_part_def
        isMergeableText_def truthy_text_def truthy_thought_def or_empty_def empty_part_def)
  from updateParts_writes_fresh_cells_only [OF wf, of news]
  obtain cp st' where "updateParts 0 news st0 = Some (cp, st')"
    and "prefix (part_cells st0) (part_cells st')"
    and "prefix (array_cells st0) (array_cells st')"
    and "cp = length (array_cells st0)"
    and "parts_of st' cp = reduce_parts (parts_of st0 0) news"
    by blast
  then have "updateParts 0 news st0 = Some (cp, st') \<and>
      prefix [empty_part\<lparr>text_val := Some ''Hello''\<rparr>] (part_cells st') \<and>
      prefix [[0]] (array_cells st') \<and> cp = 1 \<and>
      parts_of st' cp
        = [empty_part\<lparr>text_val := Some ''Hello world''\<rparr>,
           empty_part\<lparr>executableCode := Some \<lparr>language = ''python'', code = ''x''\<rparr>\<rparr>]"
    unfolding val by (simp add: st0_def)
  with wf show ?thesis
    unfolding st0_def news_def by blast
qed

section \<open>Failures of the upstream and the Back button\<close>

lemma chunks_unmounted:
  "foldl (call_step clock) (StreamOpen, None) (map ChunkArrives chunks) = (StreamOpen, None)"
  by (induction chunks) simp_all

lemma chunks_consumed:
  "foldl (call_step clock) (StreamOpen, Some s) (map ChunkArrives chunks)
     = (StreamOpen,
        map_option (\<lambda>msgs. s\<lparr>messages := msgs\<rparr>) (consume (clock 2 + 1) chunks (messages s)))"
proof (induction chunks arbitrary: s)
  case Nil
  show ?case by simp
next
  case (Cons newParts chunks)
  show ?case
  proof (cases "streamUpdate (clock 2 + 1) newParts (messages s)")
    case None
    then show ?thesis by (simp add: chunks_unmounted)
  next
    case (Some msgs)
    then show ?thesis by (simp add: Cons.IH)
  qed
qed

text \<open>
  Without a Back in between, the events of a call add up to \<open>handleSendMessage\<close>.
\<close>

lemma run_call_uninterrupted:
  "run_call clock msg_text img [SendRejects] s
     = (CallOver, handleSendMessage clock msg_text img SendRejected s) \<and>
   run_call clock msg_text img (SendResolves # map ChunkArrives chunks @ [StreamEnds]) s
     = (CallOver, handleSendMessage clock msg_text img (Streamed chunks False) s) \<and>
   run_call clock msg_text img (SendResolves # map ChunkArrives chunks @ [StreamThrows]) s
     = (CallOver, handleSendMessage clock msg_text img (Streamed chunks True) s)"
proof -
  define s3 where "s3 = s\<lparr>isLoading := True,
      messages := (messages s @ [user_message clock msg_text img]) @ [model_message clock []]\<rparr>"
  have resolved: "call_step clock (begin_call clock msg_text img s) SendResolves
      = (StreamOpen, Some s3)"
    by (simp add: begin_call_def s3_def user_message_def model_message_def Let_def)
  have consumed: "consume (clock 2 + 1) chunks (messages s3)
      = Some ((messages s @ [user_message clock msg_text img]) @
               [model_message clock (foldl reduce_parts [] chunks)])"
    using consume_last [of "model_message clock []" "clock 2 + 1" chunks
                           "messages s @ [user_message clock msg_text img]"]
    by (simp add: s3_def model_message_def)
  have streamed: "foldl (call_step clock) (begin_call clock msg_text img s)
        (SendResolves # map ChunkArrives chunks)
      = (StreamOpen,
         Some (s3\<lparr>messages := (messages s @ [user_message clock msg_text img]) @
                  [model_message clock (foldl reduce_parts [] chunks)]\<rparr>))"
    by (simp add: resolved chunks_consumed consumed)
  have last_event: "foldl (call_step clock) b (SendResolves # map ChunkArrives chunks @ [ev])
      = call_step clock (foldl (call_step clock) b (SendResolves # map ChunkArrives chunks)) ev"
    for b ev
    by simp
  have "run_call clock msg_text img [SendRejects] s
      = (CallOver, handleSendMessage clock msg_text img SendRejected s)"
    by (simp add: run_call_def begin_call_def handleSendMessage_run user_message_def Let_def)
  moreover have "run_call clock msg_text img
        (SendResolves # map ChunkArrives chunks @ [StreamEnds]) s
      = (CallOver, handleSendMessage clock msg_text img (Streamed chunks False) s)"
    unfolding run_call_def last_event streamed
    by (simp add: handleSendMessage_run s3_def)
  moreover have "run_call clock msg_text img
        (SendResolves # map ChunkArrives chunks @ [StreamThrows]) s
      = (CallOver, handleSendMessage clock msg_text img (Streamed chunks True) s)"
    unfolding run_call_def last_event streamed
    by (simp add: handleSendMessage_run s3_def)
  ultimately show ?thesis by simp
qed

text \<open>
  C9 asks that after every upstream failure one model message with the apology is
  appended, nothing already streamed is lost, and the input is enabled again. The code
  does this for a call that runs without interruption, but not in every session. When
  the user presses Back while the stream is open, the transcript is emptied; the state
  updater of the next chunk then reads the identifier of the last message of an empty
  transcript and throws, outside the handler's \<open>try\<close>, and the component is gone. The
  failure of the stream that follows appends no apology and enables no input.
\<close>

theorem back_then_chunk_loses_the_apology:
  "streamUpdate 1003 [empty_part\<lparr>text_val := Some ''lo''\<rparr>] [] = None \<and>
   run_call (\<lambda>i. 1000 + int i) ''hi'' NoImage
     [SendResolves, ChunkArrives [empty_part\<lparr>text_val := Some ''Hel''\<rparr>], BackPressed]
     \<lparr>messages = [], isLoading = False\<rparr>
     = (StreamOpen, Some \<lparr>messages = [], isLoading = False\<rparr>) \<and>
   run_call (\<lambda>i. 1000 + int i) ''hi'' NoImage
     [SendResolves, ChunkArrives [empty_part\<lparr>text_val := Some ''Hel''\<rparr>], BackPressed,
      ChunkArrives [empty_part\<lparr>text_val := Some ''lo''\<rparr>], StreamThrows]
     \<lparr>messages = [], isLoading = False\<rparr>
     = (CallOver, None)"
  by (simp add: run_call_def begin_call_def streamUpdate_def handleBack_def userParts_def
      reduce_parts_def reduce_part_def truthy_text_def empty_part_def Let_def)

end
